theory Spec2Isabelle
  imports Complex_Main "HOL-Library.Word"
begin

section \<open>JavaScript strings and the string operations the handlers use\<close>

text \<open>
  A JavaScript string is a sequence of UTF-16 code units. A code unit is kept as its
  number, so that \<open>btoa\<close>'s limit (no code unit above 255), the white space that
  \<open>trim\<close> removes and the line terminators that the regular expression \<open>.\<close> skips can
  all be written down. \<open>str\<close> turns a literal of the source into such a string.
\<close>

type_synonym jsstring = "nat list"

definition str :: "string \<Rightarrow> jsstring" where
  "str s = map of_char s"

text \<open>\<open>String.prototype.trim\<close>: white space and line terminators of ECMAScript.\<close>

definition isWhiteSpace :: "nat \<Rightarrow> bool" where
  "isWhiteSpace c \<longleftrightarrow>
     c = 9 \<or> c = 10 \<or> c = 11 \<or> c = 12 \<or> c = 13 \<or> c = 32 \<or> c = 160 \<or> c = 5760
     \<or> (8192 \<le> c \<and> c \<le> 8202) \<or> c = 8232 \<or> c = 8233 \<or> c = 8239 \<or> c = 8287
     \<or> c = 12288 \<or> c = 65279"

definition trim :: "jsstring \<Rightarrow> jsstring" where
  "trim s = rev (dropWhile isWhiteSpace (rev (dropWhile isWhiteSpace s)))"

text \<open>\<open>s.split(sep)\<close> for a separator of one code unit: never the empty array.\<close>

fun split_on :: "nat \<Rightarrow> jsstring \<Rightarrow> jsstring list" where
  "split_on sep [] = [[]]"
| "split_on sep (c # cs) =
     (if c = sep then [] # split_on sep cs
      else (case split_on sep cs of [] \<Rightarrow> [[c]] | p # ps \<Rightarrow> (c # p) # ps))"

definition startsWith :: "jsstring \<Rightarrow> jsstring \<Rightarrow> bool" where
  "startsWith s p \<longleftrightarrow> take (length p) s = p"

text \<open>
  The three cookie readers of the source share these two lines:
  \<^verbatim>\<open>const cookies = cookieHeader.split(";").map((c) => c.trim());\<close>
  \<^verbatim>\<open>const c = cookies.find((c) => c.startsWith(`${name}=`));\<close>
\<close>

definition findCookie :: "jsstring \<Rightarrow> jsstring \<Rightarrow> jsstring option" where
  "findCookie name cookieHeader =
     find (\<lambda>c. startsWith c (name @ str ''='')) (map trim (split_on 59 cookieHeader))"

section \<open>Requests, form data and the typed error\<close>

datatype form_entry = FormString jsstring | FormFile

text \<open>\<open>formData.get(name)\<close> is the first entry of that name, or null.\<close>

type_synonym form_data = "(jsstring \<times> form_entry) list"

definition formData_get :: "form_data \<Rightarrow> jsstring \<Rightarrow> form_entry option" where
  "formData_get fd name = map_of fd name"

text \<open>
  What the handlers read from a request: the \<open>Cookie\<close> header
  (\<open>request.headers.get("Cookie")\<close>, null when there is none), the \<open>state\<close> query
  parameter (\<open>url.searchParams.get("state")\<close>), the URL, and the body as form data
  (\<open>None\<close> when \<open>request.formData()\<close> rejects).
\<close>

record request =
  cookie_header :: "jsstring option"
  query_state :: "jsstring option"
  req_url :: jsstring
  body_form :: "form_data option"

datatype OAuthError = OAuthError (code: jsstring) (description: jsstring) (statusCode: nat)

section \<open>CSRF double submit\<close>

record ValidateCSRFResult =
  csrf_clearCookie :: jsstring

definition csrfCookieName :: jsstring where
  "csrfCookieName = str ''__Host-CSRF_TOKEN''"

definition validateCSRFToken :: "form_data \<Rightarrow> request \<Rightarrow> OAuthError + ValidateCSRFResult" where
  "validateCSRFToken formData request =
     (case formData_get formData (str ''csrf_token'') of
        None \<Rightarrow> Inl (OAuthError (str ''invalid_request'') (str ''Missing CSRF token in form data'') 400)
      | Some FormFile \<Rightarrow>
          Inl (OAuthError (str ''invalid_request'') (str ''Missing CSRF token in form data'') 400)
      | Some (FormString tokenFromForm) \<Rightarrow>
          if tokenFromForm = [] then
            Inl (OAuthError (str ''invalid_request'') (str ''Missing CSRF token in form data'') 400)
          else
            let cookieHeader = (case cookie_header request of None \<Rightarrow> [] | Some h \<Rightarrow> h);
                tokenFromCookie =
                  (case findCookie csrfCookieName cookieHeader of
                     None \<Rightarrow> None
                   | Some csrfCookie \<Rightarrow> Some (drop (length csrfCookieName + 1) csrfCookie))
            in (case tokenFromCookie of
                  None \<Rightarrow>
                    Inl (OAuthError (str ''invalid_request'') (str ''Missing CSRF token cookie'') 400)
                | Some tc \<Rightarrow>
                    if tc = [] then
                      Inl (OAuthError (str ''invalid_request'') (str ''Missing CSRF token cookie'') 400)
                    else if tokenFromForm \<noteq> tc then
                      Inl (OAuthError (str ''invalid_request'') (str ''CSRF token mismatch'') 400)
                    else
                      Inr \<lparr>csrf_clearCookie =
                        csrfCookieName @ str ''=; HttpOnly; Secure; Path=/; SameSite=Lax; Max-Age=0''\<rparr>))"

section \<open>Platform functions\<close>

text \<open>
  Exceptions of the runtime that are not the typed \<open>OAuthError\<close>: the
  \<open>InvalidCharacterError\<close> of \<open>atob\<close> and \<open>btoa\<close>, the \<open>DataError\<close> of
  \<open>crypto.subtle.importKey\<close>, a \<open>TypeError\<close> (a property read on null), the
  \<open>SyntaxError\<close> of \<open>JSON.parse\<close>, and a request body that is not form data.
\<close>

datatype js_exn = InvalidCharacterError | DataError | TypeError | SyntaxError | BodyError

text \<open>
  A value that \<open>JSON.parse\<close> produces. A number is an IEEE double; \<open>JSON.parse\<close>
  yields a finite one (a rational, with \<open>-0\<close> as 0) or an infinity (\<open>1e999\<close>).
  An object lists its own properties, each name once, in insertion order.
\<close>

datatype jsnumber = Finite rat | PlusInfinity | MinusInfinity

datatype json =
    JNull
  | JBool bool
  | JNum jsnumber
  | JStr jsstring
  | JArr "json list"
  | JObj "(jsstring \<times> json) list"

text \<open>
  The functions of the runtime that the source calls and that are not written in the
  repository are parameters of the model:
  \<^item> \<open>rejects_key secret\<close>: \<open>crypto.subtle.importKey("raw", encode(secret), HMAC/SHA-256)\<close>
    rejects (WebCrypto refuses a zero-length key);
  \<^item> \<open>hmac_sha256 secret data\<close>: the 32 bytes of \<open>crypto.subtle.sign("HMAC", key, encode(data))\<close>,
    as one 256-bit word, first byte most significant;
  \<^item> \<open>sha256 data\<close>: the 32 bytes of \<open>crypto.subtle.digest("SHA-256", encode(data))\<close>;
  \<^item> \<open>JSON_parse\<close> (\<open>None\<close> when it throws) and \<open>JSON_stringify\<close>;
  \<^item> \<open>error_message\<close>: the \<open>message\<close> of a runtime exception;
  \<^item> \<open>notionAuthorizeUrl url stateToken\<close>: \<open>getNotionAuthorizeUrl\<close> at the configured
    client id, the callback URL \<open>new URL("/callback", url).href\<close> and the state token;
  \<^item> \<open>fromEntries\<close>: \<open>Object.fromEntries(headers)\<close> of a \<open>Headers\<close> object, given the
    pairs appended to it.
\<close>

record platform =
  rejects_key :: "jsstring \<Rightarrow> bool"
  hmac_sha256 :: "jsstring \<Rightarrow> jsstring \<Rightarrow> 256 word"
  sha256 :: "jsstring \<Rightarrow> 256 word"
  JSON_parse :: "jsstring \<Rightarrow> json option"
  JSON_stringify :: "json \<Rightarrow> jsstring"
  error_message :: "js_exn \<Rightarrow> jsstring"
  notionAuthorizeUrl :: "jsstring \<Rightarrow> jsstring \<Rightarrow> jsstring"
  fromEntries :: "(jsstring \<times> jsstring) list \<Rightarrow> (jsstring \<times> jsstring) list"

subsection \<open>Bytes and hexadecimal text\<close>

text \<open>\<open>Array.from(new Uint8Array(buf))\<close> of a 32-byte buffer.\<close>

definition bufferBytes :: "256 word \<Rightarrow> 8 word list" where
  "bufferBytes w = map (\<lambda>i. ucast (drop_bit (8 * (31 - i)) w)) [0..<32]"

text \<open>\<open>b.toString(16).padStart(2, "0")\<close> of a byte, and \<open>.join("")\<close> over the array.\<close>

definition hexDigit :: "nat \<Rightarrow> nat" where
  "hexDigit d = (if d < 10 then 48 + d else 87 + d)"

definition byteHex :: "8 word \<Rightarrow> jsstring" where
  "byteHex b = [hexDigit (unat b div 16), hexDigit (unat b mod 16)]"

definition toHex :: "8 word list \<Rightarrow> jsstring" where
  "toHex bs = concat (map byteHex bs)"

text \<open>
  \<open>signatureHex.match(/.{1,2}/g)\<close>: the matches, greedy from the left, of one or two
  code units that are not line terminators; the empty list stands for null.
\<close>

definition isLineTerminator :: "nat \<Rightarrow> bool" where
  "isLineTerminator c \<longleftrightarrow> c = 10 \<or> c = 13 \<or> c = 8232 \<or> c = 8233"

fun matchPairs :: "jsstring \<Rightarrow> jsstring list" where
  "matchPairs [] = []"
| "matchPairs [c] = (if isLineTerminator c then [] else [[c]])"
| "matchPairs (c # d # cs) =
     (if isLineTerminator c then matchPairs (d # cs)
      else if isLineTerminator d then [c] # matchPairs cs
      else [c, d] # matchPairs cs)"

text \<open>
  \<open>Number.parseInt(s, 16)\<close>: leading white space is skipped, then a sign, then a
  \<open>0x\<close> or \<open>0X\<close> prefix; the longest run of hexadecimal digits that follows is the
  value, and no digit at all is NaN (\<open>None\<close>).
\<close>

definition hexVal :: "nat \<Rightarrow> nat option" where
  "hexVal c =
     (if 48 \<le> c \<and> c \<le> 57 then Some (c - 48)
      else if 97 \<le> c \<and> c \<le> 102 then Some (c - 87)
      else if 65 \<le> c \<and> c \<le> 70 then Some (c - 55)
      else None)"

definition parseInt16 :: "jsstring \<Rightarrow> int option" where
  "parseInt16 s =
     (let S = dropWhile isWhiteSpace s;
          sign = (case S of [] \<Rightarrow> 1 | c # _ \<Rightarrow> if c = 45 then - 1 else (1 :: int));
          S1 = (case S of [] \<Rightarrow> [] | c # r \<Rightarrow> if c = 45 \<or> c = 43 then r else S);
          S2 = (case S1 of
                  c # x # r \<Rightarrow> if c = 48 \<and> (x = 120 \<or> x = 88) then r else S1
                | _ \<Rightarrow> S1);
          Z = takeWhile (\<lambda>c. hexVal c \<noteq> None) S2
      in if Z = [] then None
         else Some (sign * int (foldl (\<lambda>a c. 16 * a + the (hexVal c)) 0 Z)))"

text \<open>An element of \<open>new Uint8Array(numbers)\<close>: NaN becomes 0, an integer wraps modulo 256.\<close>

definition toUint8 :: "int option \<Rightarrow> 8 word" where
  "toUint8 n = (case n of None \<Rightarrow> 0 | Some i \<Rightarrow> word_of_int i)"

subsection \<open>Base64: \<open>btoa\<close> and \<open>atob\<close>\<close>

definition b64char :: "nat \<Rightarrow> nat" where
  "b64char i =
     (if i < 26 then 65 + i else if i < 52 then 71 + i else if i < 62 then i - 4
      else if i = 62 then 43 else 47)"

fun b64enc :: "nat list \<Rightarrow> jsstring" where
  "b64enc [] = []"
| "b64enc [a] = [b64char (a div 4), b64char ((a mod 4) * 16), 61, 61]"
| "b64enc [a, b] =
     [b64char (a div 4), b64char ((a mod 4) * 16 + b div 16), b64char ((b mod 16) * 4), 61]"
| "b64enc (a # b # c # r) =
     [b64char (a div 4), b64char ((a mod 4) * 16 + b div 16),
      b64char ((b mod 16) * 4 + c div 64), b64char (c mod 64)] @ b64enc r"

text \<open>\<open>btoa\<close> throws on a code unit above 255 and encodes the others as bytes.\<close>

definition btoa :: "jsstring \<Rightarrow> js_exn + jsstring" where
  "btoa s = (if \<exists>c \<in> set s. 255 < c then Inl InvalidCharacterError else Inr (b64enc s))"

definition b64val :: "nat \<Rightarrow> nat option" where
  "b64val c =
     (if 65 \<le> c \<and> c \<le> 90 then Some (c - 65)
      else if 97 \<le> c \<and> c \<le> 122 then Some (c - 71)
      else if 48 \<le> c \<and> c \<le> 57 then Some (c + 4)
      else if c = 43 then Some 62
      else if c = 47 then Some 63
      else None)"

fun b64dec :: "nat list \<Rightarrow> nat list" where
  "b64dec (p # q # r # s # rest) =
     [p * 4 + q div 16, (q mod 16) * 16 + r div 4, (r mod 4) * 64 + s] @ b64dec rest"
| "b64dec [p, q, r] = [p * 4 + q div 16, (q mod 16) * 16 + r div 4]"
| "b64dec [p, q] = [p * 4 + q div 16]"
| "b64dec _ = []"

text \<open>
  \<open>atob\<close> is the forgiving base64 decoding of the HTML standard: ASCII white space is
  removed; one or two trailing \<open>=\<close> are removed when the length is a multiple of four;
  a length of 1 modulo 4 or a code unit outside the alphabet throws.
\<close>

definition isAsciiWhitespace :: "nat \<Rightarrow> bool" where
  "isAsciiWhitespace c \<longleftrightarrow> c = 9 \<or> c = 10 \<or> c = 12 \<or> c = 13 \<or> c = 32"

definition stripPadding :: "jsstring \<Rightarrow> jsstring" where
  "stripPadding d =
     (if length d mod 4 = 0 \<and> d \<noteq> [] \<and> last d = 61 then
        (if butlast d \<noteq> [] \<and> last (butlast d) = 61 then butlast (butlast d) else butlast d)
      else d)"

definition atob :: "jsstring \<Rightarrow> js_exn + jsstring" where
  "atob s =
     (let d = stripPadding (filter (\<lambda>c. \<not> isAsciiWhitespace c) s)
      in if length d mod 4 = 1 \<or> (\<exists>c \<in> set d. b64val c = None) then Inl InvalidCharacterError
         else Inr (b64dec (map (\<lambda>c. the (b64val c)) d)))"

section \<open>Signed cookie of approved clients\<close>

definition importKey :: "platform \<Rightarrow> jsstring \<Rightarrow> js_exn + jsstring" where
  "importKey P secret = (if rejects_key P secret then Inl DataError else Inr secret)"

definition signData :: "platform \<Rightarrow> jsstring \<Rightarrow> jsstring \<Rightarrow> js_exn + jsstring" where
  "signData P data secret =
     (case importKey P secret of
        Inl e \<Rightarrow> Inl e
      | Inr key \<Rightarrow> Inr (toHex (bufferBytes (hmac_sha256 P key data))))"

text \<open>
  The body of the \<open>try\<close> in \<open>verifySignature\<close>: \<open>match\<close> returning null makes
  \<open>.map\<close> throw a \<open>TypeError\<close>; otherwise \<open>crypto.subtle.verify\<close> compares the
  given bytes with the MAC of the data.
\<close>

definition verifySignature_try :: "platform \<Rightarrow> jsstring \<Rightarrow> jsstring \<Rightarrow> jsstring \<Rightarrow> js_exn + bool" where
  "verifySignature_try P key signatureHex data =
     (if matchPairs signatureHex = [] then Inl TypeError
      else Inr (map (\<lambda>byte. toUint8 (parseInt16 byte)) (matchPairs signatureHex)
                = bufferBytes (hmac_sha256 P key data)))"

definition verifySignature :: "platform \<Rightarrow> jsstring \<Rightarrow> jsstring \<Rightarrow> jsstring \<Rightarrow> js_exn + bool" where
  "verifySignature P signatureHex data secret =
     (case importKey P secret of
        Inl e \<Rightarrow> Inl e
      | Inr key \<Rightarrow>
          (case verifySignature_try P key signatureHex data of
             Inl _ \<Rightarrow> Inr False
           | Inr b \<Rightarrow> Inr b))"

text \<open>\<open>Array.isArray(v) && v.every((item) => typeof item === "string")\<close>, with the strings.\<close>

fun jsonString :: "json \<Rightarrow> jsstring option" where
  "jsonString (JStr s) = Some s"
| "jsonString _ = None"

definition stringArray :: "json \<Rightarrow> jsstring list option" where
  "stringArray v =
     (case v of
        JArr items \<Rightarrow>
          if \<forall>item \<in> set items. jsonString item \<noteq> None
          then Some (map (\<lambda>item. the (jsonString item)) items) else None
      | _ \<Rightarrow> None)"

definition approvedCookiePrefix :: jsstring where
  "approvedCookiePrefix = str ''__Host-APPROVED_CLIENTS=''"

definition getApprovedClientsFromCookie ::
    "platform \<Rightarrow> request \<Rightarrow> jsstring \<Rightarrow> js_exn + jsstring list option" where
  "getApprovedClientsFromCookie P request cookieSecret =
     (case cookie_header request of
        None \<Rightarrow> Inr None
      | Some cookieHeader \<Rightarrow>
          if cookieHeader = [] then Inr None
          else
            (case find (\<lambda>c. startsWith c approvedCookiePrefix)
                       (map trim (split_on 59 cookieHeader)) of
               None \<Rightarrow> Inr None
             | Some targetCookie \<Rightarrow>
                 (case split_on 46 (drop (length approvedCookiePrefix) targetCookie) of
                    [signatureHex, base64Payload] \<Rightarrow>
                      (case atob base64Payload of
                         Inl e \<Rightarrow> Inl e
                       | Inr payload \<Rightarrow>
                           (case verifySignature P signatureHex payload cookieSecret of
                              Inl e \<Rightarrow> Inl e
                            | Inr isValid \<Rightarrow>
                                if \<not> isValid then Inr None
                                else
                                  (case JSON_parse P payload of
                                     None \<Rightarrow> Inr None
                                   | Some approvedClients \<Rightarrow> Inr (stringArray approvedClients))))
                  | _ \<Rightarrow> Inr None)))"

definition isClientApproved :: "platform \<Rightarrow> request \<Rightarrow> jsstring \<Rightarrow> jsstring \<Rightarrow> js_exn + bool" where
  "isClientApproved P request clientId cookieSecret =
     (case getApprovedClientsFromCookie P request cookieSecret of
        Inl e \<Rightarrow> Inl e
      | Inr None \<Rightarrow> Inr False
      | Inr (Some approvedClients) \<Rightarrow> Inr (clientId \<in> set approvedClients))"

text \<open>\<open>Array.from(new Set(xs))\<close>: the first occurrence of every element, in order.\<close>

definition setToArray :: "'a list \<Rightarrow> 'a list" where
  "setToArray xs = fold (\<lambda>x acc. if x \<in> set acc then acc else acc @ [x]) xs []"

text \<open>
  \<open>addApprovedClient\<close>. Its \<open>clientId\<close> is declared a string, but the consent handler
  passes what \<open>JSON.parse\<close> gave it, so the model takes a JSON value; a string client
  id \<open>c\<close> is \<open>JStr c\<close>.
\<close>

definition addApprovedClient :: "platform \<Rightarrow> request \<Rightarrow> json \<Rightarrow> jsstring \<Rightarrow> js_exn + jsstring" where
  "addApprovedClient P request clientId cookieSecret =
     (case getApprovedClientsFromCookie P request cookieSecret of
        Inl e \<Rightarrow> Inl e
      | Inr found \<Rightarrow>
          let existing = (case found of None \<Rightarrow> [] | Some xs \<Rightarrow> xs);
              updated = setToArray (map JStr existing @ [clientId]);
              payload = JSON_stringify P (JArr updated)
          in (case signData P payload cookieSecret of
                Inl e \<Rightarrow> Inl e
              | Inr signature \<Rightarrow>
                  (case btoa payload of
                     Inl e \<Rightarrow> Inl e
                   | Inr b64 \<Rightarrow>
                       Inr (approvedCookiePrefix @ signature @ str ''.'' @ b64
                            @ str ''; HttpOnly; Secure; Path=/; SameSite=Lax; Max-Age=2592000''))))"

section \<open>State tokens in the key-value store\<close>

text \<open>
  The store maps a key to its value and the \<open>expirationTtl\<close> it was put with. Expiry is
  the store's own: an expired key is a key the store no longer has. Calls to the
  store are taken to complete.
\<close>

type_synonym kv = "jsstring \<rightharpoonup> jsstring \<times> nat"

definition kv_get :: "kv \<Rightarrow> jsstring \<Rightarrow> jsstring option" where
  "kv_get kv key = map_option fst (kv key)"

definition stateKey :: "jsstring \<Rightarrow> jsstring" where
  "stateKey stateToken = str ''oauth:state:'' @ stateToken"

record OAuthStateResult =
  os_stateToken :: jsstring

text \<open>\<open>uuid\<close> is the value that \<open>crypto.randomUUID()\<close> returns in this call.\<close>

definition createOAuthState :: "platform \<Rightarrow> jsstring \<Rightarrow> json \<Rightarrow> kv \<Rightarrow> nat \<Rightarrow> OAuthStateResult \<times> kv" where
  "createOAuthState P uuid oauthReqInfo kv stateTTL =
     (\<lparr>os_stateToken = uuid\<rparr>, kv(stateKey uuid \<mapsto> (JSON_stringify P oauthReqInfo, stateTTL)))"

record BindStateResult =
  bind_setCookie :: jsstring

definition consentedStateCookieName :: jsstring where
  "consentedStateCookieName = str ''__Host-CONSENTED_STATE''"

definition bindStateToSession :: "platform \<Rightarrow> jsstring \<Rightarrow> BindStateResult" where
  "bindStateToSession P stateToken =
     \<lparr>bind_setCookie =
        str ''__Host-CONSENTED_STATE='' @ toHex (bufferBytes (sha256 P stateToken))
        @ str ''; HttpOnly; Secure; Path=/; SameSite=Lax; Max-Age=600''\<rparr>"

record ValidateStateResult =
  vs_oauthReqInfo :: json
  vs_clearCookie :: jsstring

text \<open>
  \<open>validateOAuthState\<close> returns its result, or the error it throws, together with the
  store as the call leaves it.
\<close>

definition validateOAuthState ::
    "platform \<Rightarrow> request \<Rightarrow> kv \<Rightarrow> (OAuthError + ValidateStateResult) \<times> kv" where
  "validateOAuthState P request kv =
     (case query_state request of
        None \<Rightarrow> (Inl (OAuthError (str ''invalid_request'') (str ''Missing state parameter'') 400), kv)
      | Some stateFromQuery \<Rightarrow>
          if stateFromQuery = [] then
            (Inl (OAuthError (str ''invalid_request'') (str ''Missing state parameter'') 400), kv)
          else
            (case kv_get kv (stateKey stateFromQuery) of
               None \<Rightarrow>
                 (Inl (OAuthError (str ''invalid_request'') (str ''Invalid or expired state'') 400), kv)
             | Some storedDataJson \<Rightarrow>
                 if storedDataJson = [] then
                   (Inl (OAuthError (str ''invalid_request'') (str ''Invalid or expired state'') 400), kv)
                 else
                   let cookieHeader = (case cookie_header request of None \<Rightarrow> [] | Some h \<Rightarrow> h);
                       consentedStateHash =
                         (case findCookie consentedStateCookieName cookieHeader of
                            None \<Rightarrow> None
                          | Some consentedStateCookie \<Rightarrow>
                              Some (drop (length consentedStateCookieName + 1) consentedStateCookie))
                   in if consentedStateHash = None \<or> consentedStateHash = Some [] then
                        (Inl (OAuthError (str ''invalid_request'')
                               (str ''Missing session binding cookie - authorization flow must be restarted'')
                               400), kv)
                      else
                        let stateHash = toHex (bufferBytes (sha256 P stateFromQuery))
                        in if Some stateHash \<noteq> consentedStateHash then
                             (Inl (OAuthError (str ''invalid_request'')
                                    (str ''State token does not match session - possible CSRF attack detected'')
                                    400), kv)
                           else
                             (case JSON_parse P storedDataJson of
                                None \<Rightarrow>
                                  (Inl (OAuthError (str ''server_error'') (str ''Invalid state data'') 500), kv)
                              | Some info \<Rightarrow>
                                  (Inr \<lparr>vs_oauthReqInfo = info,
                                        vs_clearCookie =
                                          consentedStateCookieName
                                          @ str ''=; HttpOnly; Secure; Path=/; SameSite=Lax; Max-Age=0''\<rparr>,
                                   kv(stateKey stateFromQuery := None)))))"

section \<open>The consent form's POST handler\<close>

text \<open>
  A response: status, headers in order, and body. \<open>JsonBody v\<close> is the body
  \<open>JSON.stringify(v)\<close>, kept as the value that the client reads back from it.
\<close>

datatype body = NoBody | TextBody jsstring | JsonBody json

record response =
  status :: nat
  headers :: "(jsstring \<times> jsstring) list"
  body :: body

definition toResponse :: "OAuthError \<Rightarrow> response" where
  "toResponse e =
     \<lparr>status = statusCode e,
      headers = [(str ''Content-Type'', str ''application/json'')],
      body = JsonBody (JObj [(str ''error'', JStr (code e)),
                             (str ''error_description'', JStr (description e))])\<rparr>"

text \<open>Hono's \<open>c.text(text, status)\<close>.\<close>

definition c_text :: "jsstring \<Rightarrow> nat \<Rightarrow> response" where
  "c_text text st =
     \<lparr>status = st,
      headers = [(str ''Content-Type'', str ''text/plain; charset=UTF-8'')],
      body = TextBody text\<rparr>"

definition redirectToNotion ::
    "platform \<Rightarrow> request \<Rightarrow> jsstring \<Rightarrow> (jsstring \<times> jsstring) list \<Rightarrow> response" where
  "redirectToNotion P request stateToken extraHeaders =
     \<lparr>status = 302,
      headers = filter (\<lambda>h. fst h \<noteq> str ''Location'') extraHeaders
                @ [(str ''Location'', notionAuthorizeUrl P (req_url request) stateToken)],
      body = NoBody\<rparr>"

text \<open>A property read \<open>v.name\<close> on a value that is not null (\<open>None\<close> is undefined).\<close>

definition jsonProp :: "json \<Rightarrow> jsstring \<Rightarrow> json option" where
  "jsonProp v name = (case v of JObj props \<Rightarrow> map_of props name | _ \<Rightarrow> None)"

fun truthy :: "json \<Rightarrow> bool" where
  "truthy JNull = False"
| "truthy (JBool b) = b"
| "truthy (JNum n) = (n \<noteq> Finite 0)"
| "truthy (JStr s) = (s \<noteq> [])"
| "truthy (JArr _) = True"
| "truthy (JObj _) = True"

text \<open>
  \<open>app.post("/authorize")\<close>, with the signing secret of the environment, the UUID that
  \<open>createOAuthState\<close> draws, the request and the store; it returns the response and
  the store as the handler leaves it.
\<close>

definition post_authorize ::
    "platform \<Rightarrow> jsstring \<Rightarrow> jsstring \<Rightarrow> request \<Rightarrow> kv \<Rightarrow> response \<times> kv" where
  "post_authorize P cookieSecret uuid request kv =
     (case body_form request of
        None \<Rightarrow>
          (c_text (str ''Internal server error: '' @ error_message P BodyError) 500, kv)
      | Some formData \<Rightarrow>
          (case validateCSRFToken formData request of
             Inl e \<Rightarrow> (toResponse e, kv)
           | Inr _ \<Rightarrow>
               (case formData_get formData (str ''state'') of
                  None \<Rightarrow> (c_text (str ''Missing state'') 400, kv)
                | Some FormFile \<Rightarrow> (c_text (str ''Missing state'') 400, kv)
                | Some (FormString encodedState) \<Rightarrow>
                    if encodedState = [] then (c_text (str ''Missing state'') 400, kv)
                    else
                      (case atob encodedState of
                         Inl _ \<Rightarrow> (c_text (str ''Invalid state data'') 400, kv)
                       | Inr decoded \<Rightarrow>
                           (case JSON_parse P decoded of
                              None \<Rightarrow> (c_text (str ''Invalid state data'') 400, kv)
                            | Some state \<Rightarrow>
                                if state = JNull then
                                  (c_text (str ''Internal server error: '' @ error_message P TypeError) 500,
                                   kv)
                                else
                                  (case jsonProp state (str ''oauthReqInfo'') of
                                     None \<Rightarrow> (c_text (str ''Invalid request'') 400, kv)
                                   | Some info \<Rightarrow>
                                       (case (if info = JNull then None
                                              else jsonProp info (str ''clientId'')) of
                                          None \<Rightarrow> (c_text (str ''Invalid request'') 400, kv)
                                        | Some clientId \<Rightarrow>
                                            if \<not> truthy clientId then
                                              (c_text (str ''Invalid request'') 400, kv)
                                            else
                                              (case addApprovedClient P request clientId cookieSecret of
                                                 Inl e \<Rightarrow>
                                                   (c_text (str ''Internal server error: ''
                                                            @ error_message P e) 500, kv)
                                               | Inr approvedCookie \<Rightarrow>
                                                   let created = createOAuthState P uuid info kv 600;
                                                       token = os_stateToken (fst created);
                                                       sessionCookie =
                                                         bind_setCookie (bindStateToSession P token)
                                                   in (redirectToNotion P request token
                                                         (fromEntries P
                                                            [(str ''set-cookie'', approvedCookie),
                                                             (str ''set-cookie'', sessionCookie)]),
                                                       snd created)))))))))"

section \<open>Reading a cookie back\<close>

text \<open>What a user agent sends back for a \<open>Set-Cookie\<close> directive: its name=value pair.\<close>

definition cookiePair :: "jsstring \<Rightarrow> jsstring" where
  "cookiePair setCookie = takeWhile (\<lambda>c. c \<noteq> 59) setCookie"

text \<open>
  A \<open>Cookie\<close> header as a user agent writes it: the cookies \<open>before\<close>, each followed
  by \<open>"; "\<close>, then the pair looked at, then the rest of the header (empty, or the
  further cookies from their \<open>;\<close> on).
\<close>

definition sendCookies :: "jsstring list \<Rightarrow> jsstring \<Rightarrow> jsstring \<Rightarrow> jsstring" where
  "sendCookies before pair rest = concat (map (\<lambda>c. c @ str ''; '') before) @ pair @ rest"

text \<open>
  The value of the request's CSRF cookie: of the first cookie of the \<open>Cookie\<close> header
  whose text starts with \<open>__Host-CSRF_TOKEN=\<close>.
\<close>

definition csrfCookieValue :: "request \<Rightarrow> jsstring option" where
  "csrfCookieValue request =
     map_option (drop (length csrfCookieName + 1))
       (findCookie csrfCookieName (case cookie_header request of None \<Rightarrow> [] | Some h \<Rightarrow> h))"

section \<open>A small runtime for running the model\<close>

text \<open>
  An executable stand-in for the platform, used where a property is run on a concrete
  request: a 256-bit mixing function in the place of SHA-256 and of HMAC, a JSON
  writer for values whose strings need no escape, and a JSON reader that inverts the
  writer on the values the examples use. The properties themselves are proved for
  every platform.
\<close>

definition sample_word :: "jsstring \<Rightarrow> 256 word" where
  "sample_word s =
     word_of_nat (foldl (\<lambda>h c. 257 * h + c + 1) 0 s)
       * 0x9E3779B97F4A7C15F39CC0605CEDC8341082276BF3A27251F86C6A11D0C18E95 + 0x0A"

fun join :: "jsstring \<Rightarrow> jsstring list \<Rightarrow> jsstring" where
  "join sep [] = []"
| "join sep [x] = x"
| "join sep (x # y # ys) = x @ sep @ join sep (y # ys)"

fun sample_stringify :: "json \<Rightarrow> jsstring" where
  "sample_stringify JNull = str ''null''"
| "sample_stringify (JBool b) = (if b then str ''true'' else str ''false'')"
| "sample_stringify (JNum n) = str ''0''"
| "sample_stringify (JStr s) = str ''\"'' @ s @ str ''\"''"
| "sample_stringify (JArr items) =
     str ''['' @ join (str '','') (map sample_stringify items) @ str '']''"
| "sample_stringify (JObj props) =
     str ''{'' @ join (str '','')
        (map (\<lambda>p. str ''\"'' @ fst p @ str ''\":'' @ sample_stringify (snd p)) props)
     @ str ''}''"

definition sample_values :: "json list" where
  "sample_values =
     [JArr [JStr (str ''abc123'')],
      JArr [JStr (str ''xyz''), JStr (str ''abc123'')],
      JObj [(str ''clientId'', JStr (str ''abc123''))],
      JObj [(str ''oauthReqInfo'', JObj [(str ''clientId'', JStr (str ''abc123''))])]]"

definition sample_parse :: "jsstring \<Rightarrow> json option" where
  "sample_parse s = find (\<lambda>v. sample_stringify v = s) sample_values"

definition sample_platform :: platform where
  "sample_platform =
     \<lparr>rejects_key = (\<lambda>secret. secret = []),
      hmac_sha256 = (\<lambda>secret data. sample_word (secret @ 0 # data)),
      sha256 = sample_word,
      JSON_parse = sample_parse,
      JSON_stringify = sample_stringify,
      error_message = (\<lambda>e. str ''error''),
      notionAuthorizeUrl =
        (\<lambda>url token. str ''https://api.notion.com/v1/oauth/authorize?state='' @ token),
      fromEntries = (\<lambda>pairs. if pairs = [] then [] else [last pairs])\<rparr>"

section \<open>Cookies, hexadecimal text and the session binding: auxiliary facts\<close>

lemma split_on_nonempty: "split_on sep s \<noteq> []"
  by (induction s) (auto split: list.splits)

lemma split_on_no_sep: "sep \<notin> set s \<Longrightarrow> split_on sep s = [s]"
  by (induction s) auto

lemma split_on_one_sep:
  "sep \<notin> set a \<Longrightarrow> sep \<notin> set b \<Longrightarrow> split_on sep (a @ sep # b) = [a, b]"
  by (induction a) (auto simp: split_on_no_sep)

lemma trim_id:
  assumes "s \<noteq> []" "\<not> isWhiteSpace (hd s)" "\<not> isWhiteSpace (last s)"
  shows "trim s = s"
proof -
  from assms have a: "dropWhile isWhiteSpace s = s"
    by (cases s) auto
  from assms have "rev s \<noteq> []" "\<not> isWhiteSpace (hd (rev s))"
    by (simp_all add: hd_rev)
  then have b: "dropWhile isWhiteSpace (rev s) = rev s"
    by (cases "rev s") auto
  show ?thesis by (simp add: trim_def a b)
qed

lemma findCookie_single:
  assumes "59 \<notin> set c" "c \<noteq> []" "\<not> isWhiteSpace (hd c)" "\<not> isWhiteSpace (last c)"
      and "startsWith c (name @ str ''='')"
  shows "findCookie name c = Some c"
  using assms by (simp add: findCookie_def split_on_no_sep trim_id)

lemma cookiePair_append: "59 \<notin> set a \<Longrightarrow> cookiePair (a @ 59 # b) = a"
  by (auto simp: cookiePair_def takeWhile_tail)

lemma hexDigit_range: "d < 16 \<Longrightarrow> (48 \<le> hexDigit d \<and> hexDigit d \<le> 57) \<or> (97 \<le> hexDigit d \<and> hexDigit d \<le> 102)"
  by (auto simp: hexDigit_def)

lemma byteHex_range:
  assumes "c \<in> set (byteHex b)"
  shows "(48 \<le> c \<and> c \<le> 57) \<or> (97 \<le> c \<and> c \<le> 102)"
proof -
  have "unat b < 256" using unsigned_less [of b, where ?'a = nat] by simp
  then have 1: "unat b div 16 < 16" by simp
  have 2: "unat b mod 16 < 16" by simp
  from assms have "c = hexDigit (unat b div 16) \<or> c = hexDigit (unat b mod 16)"
    by (simp add: byteHex_def)
  with hexDigit_range [OF 1] hexDigit_range [OF 2] show ?thesis by blast
qed

lemma toHex_range:
  "c \<in> set (toHex bs) \<Longrightarrow> (48 \<le> c \<and> c \<le> 57) \<or> (97 \<le> c \<and> c \<le> 102)"
  using byteHex_range by (auto simp: toHex_def)

lemma length_toHex: "length (toHex bs) = 2 * length bs"
  by (induction bs) (simp_all add: toHex_def byteHex_def)

lemma length_bufferBytes: "length (bufferBytes w) = 32"
  by (simp add: bufferBytes_def)

lemma toHex_buffer_nonempty: "toHex (bufferBytes w) \<noteq> []"
  using length_toHex [of "bufferBytes w"] by (auto simp: length_bufferBytes)

lemma hexDigit_inj: "a < 16 \<Longrightarrow> b < 16 \<Longrightarrow> hexDigit a = hexDigit b \<Longrightarrow> a = b"
  by (auto simp: hexDigit_def split: if_splits)

lemma byteHex_inj:
  assumes h: "byteHex a = byteHex b"
  shows "a = b"
proof -
  have la: "unat a < 256" using unsigned_less [of a, where ?'a = nat] by simp
  have lb: "unat b < 256" using unsigned_less [of b, where ?'a = nat] by simp
  from la lb have d: "unat a div 16 < 16" "unat b div 16 < 16" by simp_all
  have m: "unat a mod 16 < 16" "unat b mod 16 < 16" by simp_all
  from h have "hexDigit (unat a div 16) = hexDigit (unat b div 16)"
    and "hexDigit (unat a mod 16) = hexDigit (unat b mod 16)"
    by (simp_all add: byteHex_def)
  then have "unat a div 16 = unat b div 16" "unat a mod 16 = unat b mod 16"
    using hexDigit_inj [OF d] hexDigit_inj [OF m] by blast+
  then have "unat a = unat b"
    by (metis div_mult_mod_eq)
  then show "a = b" by (simp add: word_unat_eq_iff)
qed

lemma toHex_inj: "toHex as = toHex bs \<Longrightarrow> as = bs"
proof (induction as arbitrary: bs)
  case Nil
  then show ?case by (cases bs) (simp_all add: toHex_def byteHex_def)
next
  case (Cons a as)
  then obtain b bs' where bs: "bs = b # bs'"
    by (cases bs) (simp_all add: toHex_def byteHex_def)
  from Cons.prems bs have "byteHex a @ toHex as = byteHex b @ toHex bs'"
    by (simp add: toHex_def)
  then have "byteHex a = byteHex b" "toHex as = toHex bs'"
    by (simp_all add: byteHex_def)
  with Cons.IH bs show ?case by (simp add: byteHex_inj)
qed

lemma bufferBytes_inj: "bufferBytes v = bufferBytes w \<Longrightarrow> v = w"
proof (rule bit_word_eqI)
  fix n assume h: "bufferBytes v = bufferBytes w" and n: "n < LENGTH(256)"
  define i where "i = 31 - n div 8"
  from n have i: "i < 32" and k: "8 * (31 - i) = 8 * (n div 8)"
    by (simp_all add: i_def)
  from h have "bufferBytes v ! i = bufferBytes w ! i" by simp
  with i have e: "(ucast (drop_bit (8 * (n div 8)) v) :: 8 word) = ucast (drop_bit (8 * (n div 8)) w)"
    by (simp add: bufferBytes_def k)
  have "bit (ucast (drop_bit (8 * (n div 8)) v) :: 8 word) (n mod 8) = bit v n"
    by (simp add: bit_ucast_iff bit_drop_bit_eq)
  moreover have "bit (ucast (drop_bit (8 * (n div 8)) w) :: 8 word) (n mod 8) = bit w n"
    by (simp add: bit_ucast_iff bit_drop_bit_eq)
  ultimately show "bit v n = bit w n" using e by simp
qed

lemma hex_not_special:
  assumes "c \<in> set (toHex bs)"
  shows "c \<noteq> 59" "c \<noteq> 46" "\<not> isWhiteSpace c" "\<not> isLineTerminator c"
  using toHex_range [OF assms] by (auto simp: isWhiteSpace_def isLineTerminator_def)

lemma bound_cookie_pair:
  "cookiePair (bind_setCookie (bindStateToSession P t))
     = str ''__Host-CONSENTED_STATE='' @ toHex (bufferBytes (sha256 P t))"
proof -
  have "59 \<notin> set (str ''__Host-CONSENTED_STATE='' @ toHex (bufferBytes (sha256 P t)))"
    using hex_not_special(1) by (auto simp: str_def)
  from cookiePair_append [OF this] show ?thesis
    by (simp add: bindStateToSession_def str_def)
qed

lemma bound_cookie_found:
  "findCookie consentedStateCookieName
      (str ''__Host-CONSENTED_STATE='' @ toHex (bufferBytes (sha256 P t)))
     = Some (str ''__Host-CONSENTED_STATE='' @ toHex (bufferBytes (sha256 P t)))"
proof (rule findCookie_single)
  let ?h = "toHex (bufferBytes (sha256 P t))"
  let ?c = "str ''__Host-CONSENTED_STATE='' @ ?h"
  show "59 \<notin> set ?c" using hex_not_special(1) by (auto simp: str_def)
  show "?c \<noteq> []" by (simp add: str_def)
  show "\<not> isWhiteSpace (hd ?c)" by (simp add: str_def isWhiteSpace_def)
  have "last ?c = last ?h" using toHex_buffer_nonempty by simp
  moreover have "last ?h \<in> set ?h" using toHex_buffer_nonempty by simp
  ultimately show "\<not> isWhiteSpace (last ?c)" using hex_not_special(3) by metis
  show "startsWith ?c (consentedStateCookieName @ str ''='')"
    by (simp add: startsWith_def consentedStateCookieName_def str_def)
qed

lemma bound_cookie_value:
  "drop (length consentedStateCookieName + 1)
      (str ''__Host-CONSENTED_STATE='' @ toHex (bufferBytes (sha256 P t)))
     = toHex (bufferBytes (sha256 P t))"
  by (simp add: consentedStateCookieName_def str_def)

lemma validateOAuthState_after_lookup:
  assumes "query_state request = Some t" "t \<noteq> []"
      and "kv (stateKey t) = Some (v, ttl)" "v \<noteq> []"
      and "map_option (drop (length consentedStateCookieName + 1))
             (findCookie consentedStateCookieName
               (case cookie_header request of None \<Rightarrow> [] | Some h \<Rightarrow> h)) = hash"
  shows "validateOAuthState P request kv =
     (if hash = None \<or> hash = Some [] then
        (Inl (OAuthError (str ''invalid_request'')
               (str ''Missing session binding cookie - authorization flow must be restarted'') 400), kv)
      else if Some (toHex (bufferBytes (sha256 P t))) \<noteq> hash then
        (Inl (OAuthError (str ''invalid_request'')
               (str ''State token does not match session - possible CSRF attack detected'') 400), kv)
      else
        (case JSON_parse P v of
           None \<Rightarrow> (Inl (OAuthError (str ''server_error'') (str ''Invalid state data'') 500), kv)
         | Some info \<Rightarrow>
             (Inr \<lparr>vs_oauthReqInfo = info,
                   vs_clearCookie =
                     str ''__Host-CONSENTED_STATE=; HttpOnly; Secure; Path=/; SameSite=Lax; Max-Age=0''\<rparr>,
              kv(stateKey t := None))))"
proof -
  have clear: "consentedStateCookieName @ str ''=; HttpOnly; Secure; Path=/; SameSite=Lax; Max-Age=0''
     = str ''__Host-CONSENTED_STATE=; HttpOnly; Secure; Path=/; SameSite=Lax; Max-Age=0''"
    by (simp add: consentedStateCookieName_def str_def)
  have "(case findCookie consentedStateCookieName
               (case cookie_header request of None \<Rightarrow> [] | Some h \<Rightarrow> h) of
           None \<Rightarrow> None
         | Some c \<Rightarrow> Some (drop (length consentedStateCookieName + 1) c)) = hash"
    using assms(5) by (auto split: option.splits)
  with assms(1-4) show ?thesis
    unfolding validateOAuthState_def clear by (simp add: kv_get_def Let_def del: fun_upd_apply)
qed

lemma validateOAuthState_bound:
  assumes "query_state request = Some t" "t \<noteq> []"
      and "kv (stateKey t) = Some (v, ttl)" "v \<noteq> []"
      and c: "cookie_header request = Some (cookiePair (bind_setCookie (bindStateToSession P t')))"
  shows "validateOAuthState P request kv =
     (if sha256 P t' \<noteq> sha256 P t then
        (Inl (OAuthError (str ''invalid_request'')
               (str ''State token does not match session - possible CSRF attack detected'') 400), kv)
      else
        (case JSON_parse P v of
           None \<Rightarrow> (Inl (OAuthError (str ''server_error'') (str ''Invalid state data'') 500), kv)
         | Some info \<Rightarrow>
             (Inr \<lparr>vs_oauthReqInfo = info,
                   vs_clearCookie =
                     str ''__Host-CONSENTED_STATE=; HttpOnly; Secure; Path=/; SameSite=Lax; Max-Age=0''\<rparr>,
              kv(stateKey t := None))))"
proof -
  let ?c = "str ''__Host-CONSENTED_STATE='' @ toHex (bufferBytes (sha256 P t'))"
  have eq: "toHex (bufferBytes (sha256 P t)) = toHex (bufferBytes (sha256 P t')) \<longleftrightarrow> sha256 P t' = sha256 P t"
  proof
    assume "toHex (bufferBytes (sha256 P t)) = toHex (bufferBytes (sha256 P t'))"
    then have "bufferBytes (sha256 P t) = bufferBytes (sha256 P t')" by (rule toHex_inj)
    then show "sha256 P t' = sha256 P t" by (simp add: bufferBytes_inj)
  next
    assume "sha256 P t' = sha256 P t"
    then show "toHex (bufferBytes (sha256 P t)) = toHex (bufferBytes (sha256 P t'))" by simp
  qed
  have found: "findCookie consentedStateCookieName
      (case cookie_header request of None \<Rightarrow> [] | Some h \<Rightarrow> h) = Some ?c"
    by (simp add: c bound_cookie_pair bound_cookie_found)
  have hash: "map_option (drop (length consentedStateCookieName + 1))
             (findCookie consentedStateCookieName
               (case cookie_header request of None \<Rightarrow> [] | Some h \<Rightarrow> h))
      = Some (toHex (bufferBytes (sha256 P t')))"
    unfolding found option.map bound_cookie_value ..
  show ?thesis
    unfolding validateOAuthState_after_lookup [where kv = kv and P = P, OF assms(1-4) hash]
    by (simp add: eq toHex_buffer_nonempty del: fun_upd_apply)
qed

text \<open>The binding cookie among the other cookies of a header.\<close>

lemma split_on_sep: "sep \<notin> set a \<Longrightarrow> split_on sep (a @ sep # b) = a # split_on sep b"
  by (induction a) (auto split: list.splits simp: split_on_nonempty)

lemma trim_ws_prefix: "\<forall>x \<in> set sp. isWhiteSpace x \<Longrightarrow> trim (sp @ s) = trim s"
  by (simp add: trim_def dropWhile_append)

lemma find_among:
  assumes others: "\<forall>c \<in> set before. 59 \<notin> set c \<and> \<not> startsWith (trim c) (name @ str ''='')"
      and rest: "rest = [] \<or> hd rest = 59"
      and pair: "59 \<notin> set pair" "pair \<noteq> []" "\<not> isWhiteSpace (hd pair)"
        "\<not> isWhiteSpace (last pair)" "startsWith pair (name @ str ''='')"
      and sp: "\<forall>x \<in> set sp. isWhiteSpace x"
  shows "find (\<lambda>c. startsWith c (name @ str ''=''))
           (map trim (split_on 59 (sp @ concat (map (\<lambda>c. c @ str ''; '') before) @ pair @ rest)))
         = Some pair"
  using others sp
proof (induction before arbitrary: sp)
  case Nil
  have nsp: "59 \<notin> set (sp @ pair)"
    using Nil.prems(2) pair(1) by (auto simp: isWhiteSpace_def)
  have t: "trim (sp @ pair) = pair"
    using trim_ws_prefix [OF Nil.prems(2), of pair] trim_id [OF pair(2,3,4)] by simp
  show ?case
  proof (cases rest)
    case Nil
    then show ?thesis
      using split_on_no_sep [OF nsp] t pair(5) by simp
  next
    case (Cons r rs)
    with rest have "rest = 59 # rs" by simp
    then show ?thesis
      using split_on_sep [OF nsp, of rs] t pair(5) by simp
  qed
next
  case (Cons c cs)
  from Cons.prems(1) have c: "59 \<notin> set c" "\<not> startsWith (trim c) (name @ str ''='')"
    and cs: "\<forall>c \<in> set cs. 59 \<notin> set c \<and> \<not> startsWith (trim c) (name @ str ''='')"
    by simp_all
  have nsp: "59 \<notin> set (sp @ c)"
    using Cons.prems(2) c(1) by (auto simp: isWhiteSpace_def)
  have sp': "\<forall>x \<in> set [32]. isWhiteSpace x" by (simp add: isWhiteSpace_def)
  have e: "sp @ concat (map (\<lambda>c. c @ str ''; '') (c # cs)) @ pair @ rest
      = (sp @ c) @ 59 # ([32] @ concat (map (\<lambda>c. c @ str ''; '') cs) @ pair @ rest)"
    by (simp add: str_def)
  have t: "trim (sp @ c) = trim c"
    by (rule trim_ws_prefix [OF Cons.prems(2)])
  show ?case
    unfolding e split_on_sep [OF nsp]
    using Cons.IH [OF cs sp'] c(2) t by simp
qed

lemma findCookie_among:
  assumes "\<forall>c \<in> set before. 59 \<notin> set c \<and> \<not> startsWith (trim c) (name @ str ''='')"
      and "rest = [] \<or> hd rest = 59"
      and "59 \<notin> set pair" "pair \<noteq> []" "\<not> isWhiteSpace (hd pair)"
        "\<not> isWhiteSpace (last pair)" "startsWith pair (name @ str ''='')"
  shows "findCookie name (sendCookies before pair rest) = Some pair"
  using find_among [OF assms, of "[]"] by (simp add: findCookie_def sendCookies_def)

lemma bound_cookie_found_among:
  assumes "\<forall>c \<in> set before.
             59 \<notin> set c \<and> \<not> startsWith (trim c) (consentedStateCookieName @ str ''='')"
      and "rest = [] \<or> hd rest = 59"
  shows "findCookie consentedStateCookieName
      (sendCookies before (str ''__Host-CONSENTED_STATE='' @ toHex (bufferBytes (sha256 P t))) rest)
     = Some (str ''__Host-CONSENTED_STATE='' @ toHex (bufferBytes (sha256 P t)))"
proof (rule findCookie_among [OF assms])
  let ?h = "toHex (bufferBytes (sha256 P t))"
  let ?c = "str ''__Host-CONSENTED_STATE='' @ ?h"
  show "59 \<notin> set ?c" using hex_not_special(1) by (auto simp: str_def)
  show "?c \<noteq> []" by (simp add: str_def)
  show "\<not> isWhiteSpace (hd ?c)" by (simp add: str_def isWhiteSpace_def)
  have "last ?c = last ?h" using toHex_buffer_nonempty by simp
  moreover have "last ?h \<in> set ?h" using toHex_buffer_nonempty by simp
  ultimately show "\<not> isWhiteSpace (last ?c)" using hex_not_special(3) by metis
  show "startsWith ?c (consentedStateCookieName @ str ''='')"
    by (simp add: startsWith_def consentedStateCookieName_def str_def)
qed

lemma validateOAuthState_bound_among:
  assumes "query_state request = Some t" "t \<noteq> []"
      and "kv (stateKey t) = Some (v, ttl)" "v \<noteq> []"
      and others: "\<forall>c \<in> set before.
             59 \<notin> set c \<and> \<not> startsWith (trim c) (consentedStateCookieName @ str ''='')"
      and rest: "rest = [] \<or> hd rest = 59"
      and c: "cookie_header request
          = Some (sendCookies before (cookiePair (bind_setCookie (bindStateToSession P t'))) rest)"
  shows "validateOAuthState P request kv =
     (if sha256 P t' \<noteq> sha256 P t then
        (Inl (OAuthError (str ''invalid_request'')
               (str ''State token does not match session - possible CSRF attack detected'') 400), kv)
      else
        (case JSON_parse P v of
           None \<Rightarrow> (Inl (OAuthError (str ''server_error'') (str ''Invalid state data'') 500), kv)
         | Some info \<Rightarrow>
             (Inr \<lparr>vs_oauthReqInfo = info,
                   vs_clearCookie =
                     str ''__Host-CONSENTED_STATE=; HttpOnly; Secure; Path=/; SameSite=Lax; Max-Age=0''\<rparr>,
              kv(stateKey t := None))))"
proof -
  let ?c = "str ''__Host-CONSENTED_STATE='' @ toHex (bufferBytes (sha256 P t'))"
  have eq: "toHex (bufferBytes (sha256 P t)) = toHex (bufferBytes (sha256 P t')) \<longleftrightarrow> sha256 P t' = sha256 P t"
  proof
    assume "toHex (bufferBytes (sha256 P t)) = toHex (bufferBytes (sha256 P t'))"
    then have "bufferBytes (sha256 P t) = bufferBytes (sha256 P t')" by (rule toHex_inj)
    then show "sha256 P t' = sha256 P t" by (simp add: bufferBytes_inj)
  next
    assume "sha256 P t' = sha256 P t"
    then show "toHex (bufferBytes (sha256 P t)) = toHex (bufferBytes (sha256 P t'))" by simp
  qed
  have found: "findCookie consentedStateCookieName
      (case cookie_header request of None \<Rightarrow> [] | Some h \<Rightarrow> h) = Some ?c"
    by (simp add: c bound_cookie_pair bound_cookie_found_among [OF others rest])
  have hash: "map_option (drop (length consentedStateCookieName + 1))
             (findCookie consentedStateCookieName
               (case cookie_header request of None \<Rightarrow> [] | Some h \<Rightarrow> h))
      = Some (toHex (bufferBytes (sha256 P t')))"
    unfolding found option.map bound_cookie_value ..
  show ?thesis
    unfolding validateOAuthState_after_lookup [where kv = kv and P = P, OF assms(1-4) hash]
    by (simp add: eq toHex_buffer_nonempty del: fun_upd_apply)
qed

text \<open>Signatures: hexadecimal text read back.\<close>

lemma hexVal_hexDigit: "d < 16 \<Longrightarrow> hexVal (hexDigit d) = Some d"
  by (auto simp: hexVal_def hexDigit_def)

lemma parseInt16_pair:
  assumes "a < 16" "b < 16"
  shows "parseInt16 [hexDigit a, hexDigit b] = Some (int (16 * a + b))"
proof -
  have wa: "\<not> isWhiteSpace (hexDigit a)" "hexDigit a \<noteq> 45" "hexDigit a \<noteq> 43"
    using assms(1) by (auto simp: hexDigit_def isWhiteSpace_def)
  have xb: "hexDigit b \<noteq> 120" "hexDigit b \<noteq> 88"
    using assms(2) by (auto simp: hexDigit_def)
  show ?thesis
    using wa xb by (simp add: parseInt16_def hexVal_hexDigit assms)
qed

lemma decode_byteHex: "toUint8 (parseInt16 (byteHex b)) = b"
proof -
  have "unat b < 256" using unsigned_less [of b, where ?'a = nat] by simp
  then have 1: "unat b div 16 < 16" by simp
  have 2: "unat b mod 16 < 16" by simp
  have "parseInt16 (byteHex b) = Some (int (16 * (unat b div 16) + unat b mod 16))"
    unfolding byteHex_def by (rule parseInt16_pair [OF 1 2])
  also have "16 * (unat b div 16) + unat b mod 16 = unat b" by simp
  finally show ?thesis by (simp add: toUint8_def)
qed

lemma matchPairs_toHex: "matchPairs (toHex bs) = map byteHex bs"
proof (induction bs)
  case Nil
  show ?case by (simp add: toHex_def)
next
  case (Cons b bs)
  have "\<not> isLineTerminator (hexDigit (unat b div 16))" "\<not> isLineTerminator (hexDigit (unat b mod 16))"
    using hex_not_special(4) [of _ "[b]"] by (simp_all add: toHex_def byteHex_def)
  moreover have "toHex (b # bs) = hexDigit (unat b div 16) # hexDigit (unat b mod 16) # toHex bs"
    by (simp add: toHex_def byteHex_def)
  ultimately show ?case using Cons.IH by (simp add: byteHex_def)
qed

lemma decode_toHex:
  "map (\<lambda>byte. toUint8 (parseInt16 byte)) (matchPairs (toHex bs)) = bs"
  by (simp add: matchPairs_toHex decode_byteHex o_def)

lemma verifySignature_eq:
  assumes "\<not> rejects_key P secret"
  shows "verifySignature P signatureHex data secret =
     Inr (matchPairs signatureHex \<noteq> []
          \<and> map (\<lambda>byte. toUint8 (parseInt16 byte)) (matchPairs signatureHex)
              = bufferBytes (hmac_sha256 P secret data))"
  using assms by (simp add: verifySignature_def verifySignature_try_def importKey_def)

lemma verifySignature_toHex:
  assumes "\<not> rejects_key P secret"
  shows "verifySignature P (toHex bs) data secret = Inr (bs = bufferBytes (hmac_sha256 P secret data))"
proof -
  have "bs = bufferBytes (hmac_sha256 P secret data) \<Longrightarrow> matchPairs (toHex bs) \<noteq> []"
    using length_bufferBytes [of "hmac_sha256 P secret data"] by (auto simp: matchPairs_toHex)
  then show ?thesis
    unfolding verifySignature_eq [OF assms] decode_toHex by auto
qed

lemma matchPairs_append_newline:
  "matchPairs (toHex bs @ [10]) = matchPairs (toHex bs)"
proof (induction bs)
  case Nil
  show ?case by (simp add: toHex_def isLineTerminator_def)
next
  case (Cons b bs)
  have "\<not> isLineTerminator (hexDigit (unat b div 16))" "\<not> isLineTerminator (hexDigit (unat b mod 16))"
    using hex_not_special(4) [of _ "[b]"] by (simp_all add: toHex_def byteHex_def)
  moreover have "toHex (b # bs) = hexDigit (unat b div 16) # hexDigit (unat b mod 16) # toHex bs"
    by (simp add: toHex_def byteHex_def)
  ultimately show ?case using Cons.IH by simp
qed

lemma matchPairs_length:
  "\<forall>c \<in> set s. \<not> isLineTerminator c \<Longrightarrow> length (matchPairs s) = (length s + 1) div 2"
  by (induction s rule: matchPairs.induct) auto

text \<open>Base64: \<open>atob\<close> undoes \<open>btoa\<close>.\<close>

lemma b64val_b64char: "i < 64 \<Longrightarrow> b64val (b64char i) = Some i"
  by (auto simp: b64val_def b64char_def)

lemma b64char_range:
  "(65 \<le> b64char i \<and> b64char i \<le> 90) \<or> (97 \<le> b64char i \<and> b64char i \<le> 122)
   \<or> (48 \<le> b64char i \<and> b64char i \<le> 57) \<or> b64char i = 43 \<or> b64char i = 47"
  by (auto simp: b64char_def)

lemma b64char_not_special:
  "b64char i \<noteq> 61" "b64char i \<noteq> 59" "b64char i \<noteq> 46" "\<not> isAsciiWhitespace (b64char i)"
  "\<not> isWhiteSpace (b64char i)"
  using b64char_range [of i] by (auto simp: isAsciiWhitespace_def isWhiteSpace_def)

lemma b64enc_chars:
  "c \<in> set (b64enc s) \<Longrightarrow> c = 61 \<or> (\<exists>i. c = b64char i)"
  by (induction s rule: b64enc.induct) auto

lemma b64enc_not_special:
  assumes "c \<in> set (b64enc s)"
  shows "c \<noteq> 59" "c \<noteq> 46" "\<not> isAsciiWhitespace c" "\<not> isWhiteSpace c"
  using b64enc_chars [OF assms] b64char_not_special
  by (auto simp: isAsciiWhitespace_def isWhiteSpace_def)

lemma b64enc_no_whitespace: "filter (\<lambda>c. \<not> isAsciiWhitespace c) (b64enc s) = b64enc s"
  using b64enc_not_special(3) by (simp add: filter_id_conv)

lemma length_b64enc: "length (b64enc s) mod 4 = 0"
  by (induction s rule: b64enc.induct) auto

lemma b64enc_Nil_iff: "b64enc s = [] \<longleftrightarrow> s = []"
  by (cases s rule: b64enc.cases) auto

lemma length_b64enc_ge: "s \<noteq> [] \<Longrightarrow> 4 \<le> length (b64enc s)"
  by (cases s rule: b64enc.cases) auto

lemma stripPadding_b64enc:
  "stripPadding (b64enc s) = filter (\<lambda>c. c \<noteq> 61) (b64enc s)"
proof (induction s rule: b64enc.induct)
  case 1
  show ?case by (simp add: stripPadding_def)
next
  case (2 a)
  show ?case by (simp add: stripPadding_def b64char_not_special)
next
  case (3 a b)
  show ?case by (simp add: stripPadding_def b64char_not_special)
next
  case (4 a b c r)
  let ?four = "[b64char (a div 4), b64char ((a mod 4) * 16 + b div 16),
      b64char ((b mod 16) * 4 + c div 64), b64char (c mod 64)]"
  have four: "filter (\<lambda>c. c \<noteq> 61) ?four = ?four"
    by (simp add: b64char_not_special)
  show ?case
  proof (cases "r = []")
    case True
    then show ?thesis by (simp add: stripPadding_def b64char_not_special)
  next
    case False
    let ?rest = "b64enc r"
    from False have ne: "?rest \<noteq> []" by (simp add: b64enc_Nil_iff)
    from False have len: "4 \<le> length ?rest" by (rule length_b64enc_ge)
    then have bne: "butlast ?rest \<noteq> []"
      by (cases ?rest) (auto simp: butlast_conv_take)
    have m: "length (?four @ ?rest) mod 4 = 0" "length ?rest mod 4 = 0"
      using length_b64enc [of r] by simp_all
    have "stripPadding (?four @ ?rest) = ?four @ stripPadding ?rest"
      using ne bne m by (simp add: stripPadding_def butlast_append)
    with "4.IH" show ?thesis by (simp add: b64char_not_special)
  qed
qed

lemma b64_arith:
  fixes a b c :: nat
  assumes "a < 256" "b < 256" "c < 256"
  shows "(a div 4) * 4 + ((a mod 4) * 16 + b div 16) div 16 = a"
    and "(((a mod 4) * 16 + b div 16) mod 16) * 16 + ((b mod 16) * 4 + c div 64) div 4 = b"
    and "(((b mod 16) * 4 + c div 64) mod 4) * 64 + c mod 64 = c"
    and "a div 4 < 64" "(a mod 4) * 16 + b div 16 < 64" "(b mod 16) * 4 + c div 64 < 64" "c mod 64 < 64"
proof -
  from assms have x: "b div 16 < 16" and y: "c div 64 < 4" by simp_all
  show "(a div 4) * 4 + ((a mod 4) * 16 + b div 16) div 16 = a"
    using x by simp
  show "(((a mod 4) * 16 + b div 16) mod 16) * 16 + ((b mod 16) * 4 + c div 64) div 4 = b"
    using x y by simp
  show "(((b mod 16) * 4 + c div 64) mod 4) * 64 + c mod 64 = c"
    using y by simp
  show "a div 4 < 64" using assms by simp
  have "a mod 4 < 4" by simp
  then have "(a mod 4) * 16 \<le> 48" by simp
  with x show "(a mod 4) * 16 + b div 16 < 64" by linarith
  have "b mod 16 < 16" by simp
  then have "(b mod 16) * 4 \<le> 60" by simp
  with y show "(b mod 16) * 4 + c div 64 < 64" by linarith
  show "c mod 64 < 64" by simp
qed

lemma b64_roundtrip_core:
  assumes "\<forall>x \<in> set s. x < 256"
  shows "(\<forall>c \<in> set (filter (\<lambda>c. c \<noteq> 61) (b64enc s)). b64val c \<noteq> None)
     \<and> length (filter (\<lambda>c. c \<noteq> 61) (b64enc s)) mod 4 \<noteq> 1
     \<and> b64dec (map (\<lambda>c. the (b64val c)) (filter (\<lambda>c. c \<noteq> 61) (b64enc s))) = s"
  using assms
proof (induction s rule: b64enc.induct)
  case 1
  show ?case by simp
next
  case (2 a)
  then have a: "a < 256" by simp
  note f = b64_arith [OF a, of 0 0, simplified]
  show ?case
    using f by (simp add: b64char_not_special b64val_b64char)
next
  case (3 a b)
  then have a: "a < 256" and b: "b < 256" by simp_all
  note f = b64_arith [OF a b, of 0, simplified]
  show ?case
    using f by (simp add: b64char_not_special b64val_b64char)
next
  case (4 a b c r)
  then have a: "a < 256" and b: "b < 256" and c: "c < 256" and r: "\<forall>x \<in> set r. x < 256"
    by simp_all
  note f = b64_arith [OF a b c]
  note ih = "4.IH" [OF r]
  from ih have 1: "\<forall>c \<in> set (filter (\<lambda>c. c \<noteq> 61) (b64enc r)). b64val c \<noteq> None"
    and 2: "length (filter (\<lambda>c. c \<noteq> 61) (b64enc r)) mod 4 \<noteq> 1"
    and 3: "b64dec (map (\<lambda>c. the (b64val c)) (filter (\<lambda>c. c \<noteq> 61) (b64enc r))) = r"
    by blast+
  have e: "filter (\<lambda>c. c \<noteq> 61) (b64enc (a # b # c # r))
      = b64char (a div 4) # b64char ((a mod 4) * 16 + b div 16)
        # b64char ((b mod 16) * 4 + c div 64) # b64char (c mod 64)
        # filter (\<lambda>c. c \<noteq> 61) (b64enc r)"
    by (simp add: b64char_not_special)
  have "\<forall>c \<in> set (filter (\<lambda>c. c \<noteq> 61) (b64enc (a # b # c # r))). b64val c \<noteq> None"
    unfolding e using 1 f by (simp add: b64val_b64char)
  moreover have "length (filter (\<lambda>c. c \<noteq> 61) (b64enc (a # b # c # r))) mod 4 \<noteq> 1"
    unfolding e using 2 by simp
  moreover have "b64dec (map (\<lambda>c. the (b64val c)) (filter (\<lambda>c. c \<noteq> 61) (b64enc (a # b # c # r))))
      = a # b # c # r"
    unfolding e using 3 f by (simp add: b64val_b64char)
  ultimately show ?case by blast
qed

lemma atob_b64enc:
  assumes "\<forall>x \<in> set s. x < 256"
  shows "atob (b64enc s) = Inr s"
  using b64_roundtrip_core [OF assms]
  by (auto simp: atob_def b64enc_no_whitespace stripPadding_b64enc Let_def)

lemma atob_btoa: "btoa s = Inr e \<Longrightarrow> atob e = Inr s"
proof -
  assume h: "btoa s = Inr e"
  then have "\<forall>x \<in> set s. x < 256" and "e = b64enc s"
    by (auto simp: btoa_def not_less split: if_splits)
  then show ?thesis by (simp add: atob_b64enc)
qed

text \<open>The approved-clients cookie: set semantics and reading the cookie back.\<close>

lemma fold_setToArray_distinct:
  "distinct (acc @ ys) \<Longrightarrow>
   fold (\<lambda>x acc. if x \<in> set acc then acc else acc @ [x]) ys acc = acc @ ys"
  by (induction ys arbitrary: acc) auto

lemma fold_setToArray_props:
  "distinct acc \<Longrightarrow>
   distinct (fold (\<lambda>x acc. if x \<in> set acc then acc else acc @ [x]) xs acc)
   \<and> set (fold (\<lambda>x acc. if x \<in> set acc then acc else acc @ [x]) xs acc) = set acc \<union> set xs"
  by (induction xs arbitrary: acc) auto

lemma distinct_setToArray: "distinct (setToArray xs)"
  using fold_setToArray_props [of "[]" xs] by (simp add: setToArray_def)

lemma set_setToArray: "set (setToArray xs) = set xs"
  using fold_setToArray_props [of "[]" xs] by (simp add: setToArray_def)

lemma setToArray_distinct: "distinct ys \<Longrightarrow> setToArray ys = ys"
  using fold_setToArray_distinct [of "[]" ys] by (simp add: setToArray_def)

lemma setToArray_snoc:
  "setToArray (xs @ [c]) = (if c \<in> set xs then setToArray xs else setToArray xs @ [c])"
  by (simp add: setToArray_def set_setToArray [unfolded setToArray_def])

lemma setToArray_again:
  "setToArray (setToArray (xs @ [c]) @ [c]) = setToArray (xs @ [c])"
proof -
  have "c \<in> set (setToArray (xs @ [c]))" by (simp add: set_setToArray)
  then show ?thesis
    by (simp add: setToArray_snoc [of "setToArray (xs @ [c])"] setToArray_distinct distinct_setToArray)
qed

lemma fold_setToArray_map:
  "inj f \<Longrightarrow>
   fold (\<lambda>x acc. if x \<in> set acc then acc else acc @ [x]) (map f xs) (map f acc)
     = map f (fold (\<lambda>x acc. if x \<in> set acc then acc else acc @ [x]) xs acc)"
proof (induction xs arbitrary: acc)
  case Nil
  show ?case by simp
next
  case (Cons x xs)
  have m: "f x \<in> set (map f acc) \<longleftrightarrow> x \<in> set acc"
    using Cons.prems by (auto dest: injD)
  show ?case
  proof (cases "x \<in> set acc")
    case True
    with m Cons.IH [OF Cons.prems, of acc] show ?thesis by simp
  next
    case False
    with m Cons.IH [OF Cons.prems, of "acc @ [x]"] show ?thesis by simp
  qed
qed

lemma setToArray_map: "inj f \<Longrightarrow> setToArray (map f xs) = map f (setToArray xs)"
  using fold_setToArray_map [of f xs "[]"] by (simp add: setToArray_def)

lemma inj_JStr: "inj JStr"
  by (simp add: inj_def)

lemma stringArray_strings: "stringArray (JArr (map JStr xs)) = Some xs"
  by (simp add: stringArray_def o_def)

lemma count_list_distinct: "distinct ys \<Longrightarrow> c \<in> set ys \<Longrightarrow> count_list ys c = 1"
  by (induction ys) auto

lemma approved_header_no_semicolon:
  "59 \<notin> set (approvedCookiePrefix @ toHex bs @ str ''.'' @ b64enc payload)"
  using hex_not_special(1) [of _ bs] b64enc_not_special(1) [of _ payload]
  by (auto simp: approvedCookiePrefix_def str_def)

lemma approved_header_found:
  "find (\<lambda>c. startsWith c approvedCookiePrefix)
        (map trim (split_on 59 (approvedCookiePrefix @ toHex bs @ str ''.'' @ b64enc payload)))
     = Some (approvedCookiePrefix @ toHex bs @ str ''.'' @ b64enc payload)"
proof -
  let ?h = "approvedCookiePrefix @ toHex bs @ str ''.'' @ b64enc payload"
  have ne: "?h \<noteq> []" by (simp add: approvedCookiePrefix_def str_def)
  have hd: "\<not> isWhiteSpace (hd ?h)"
    by (simp add: approvedCookiePrefix_def str_def isWhiteSpace_def)
  have "last ?h = (if b64enc payload = [] then 46 else last (b64enc payload))"
    by (simp add: str_def)
  moreover have "b64enc payload \<noteq> [] \<Longrightarrow> \<not> isWhiteSpace (last (b64enc payload))"
    using b64enc_not_special(4) [of "last (b64enc payload)" payload] by simp
  ultimately have last: "\<not> isWhiteSpace (last ?h)"
    by (auto simp: isWhiteSpace_def)
  have sw: "startsWith ?h approvedCookiePrefix" by (simp add: startsWith_def)
  show ?thesis
    using approved_header_no_semicolon [of bs payload] ne hd last sw
    by (simp add: split_on_no_sep trim_id)
qed

lemma approved_header_parts:
  "split_on 46 (drop (length approvedCookiePrefix)
        (approvedCookiePrefix @ toHex bs @ str ''.'' @ b64enc payload))
     = [toHex bs, b64enc payload]"
proof -
  have "46 \<notin> set (toHex bs)" using hex_not_special(2) by blast
  moreover have "46 \<notin> set (b64enc payload)" using b64enc_not_special(2) by blast
  ultimately show ?thesis
    using split_on_one_sep [of 46 "toHex bs" "b64enc payload"] by (simp add: str_def)
qed

lemma approved_cookie_read:
  assumes key: "\<not> rejects_key P secret"
      and bytes: "\<forall>x \<in> set payload. x < 256"
      and hdr: "cookie_header request
          = Some (approvedCookiePrefix @ toHex (bufferBytes (hmac_sha256 P secret payload))
                  @ str ''.'' @ b64enc payload)"
  shows "getApprovedClientsFromCookie P request secret
     = Inr (case JSON_parse P payload of None \<Rightarrow> None | Some v \<Rightarrow> stringArray v)"
proof -
  let ?sig = "toHex (bufferBytes (hmac_sha256 P secret payload))"
  let ?h = "approvedCookiePrefix @ ?sig @ str ''.'' @ b64enc payload"
  have ne: "str ''.'' \<noteq> []" by (simp add: str_def)
  have v: "verifySignature P ?sig payload secret = Inr True"
    by (simp add: verifySignature_toHex [OF key])
  show ?thesis
    unfolding getApprovedClientsFromCookie_def hdr option.case approved_header_found
      approved_header_parts
    using ne by (simp add: atob_b64enc [OF bytes] v split: option.splits)
qed

lemma addApprovedClient_cookie:
  assumes "addApprovedClient P request clientId secret = Inr cookie"
  shows "\<exists>found payload.
      getApprovedClientsFromCookie P request secret = Inr found
    \<and> payload = JSON_stringify P (JArr (setToArray
          (map JStr (case found of None \<Rightarrow> [] | Some xs \<Rightarrow> xs) @ [clientId])))
    \<and> \<not> rejects_key P secret
    \<and> (\<forall>x \<in> set payload. x < 256)
    \<and> cookie = approvedCookiePrefix @ toHex (bufferBytes (hmac_sha256 P secret payload))
          @ str ''.'' @ b64enc payload
          @ str ''; HttpOnly; Secure; Path=/; SameSite=Lax; Max-Age=2592000''"
  using assms
  by (auto simp: addApprovedClient_def Let_def signData_def importKey_def btoa_def not_less
      split: sum.splits if_splits)

lemma approved_cookie_pair:
  "cookiePair (approvedCookiePrefix @ toHex bs @ str ''.'' @ b64enc payload
        @ str ''; HttpOnly; Secure; Path=/; SameSite=Lax; Max-Age=2592000'')
     = approvedCookiePrefix @ toHex bs @ str ''.'' @ b64enc payload"
proof -
  have "cookiePair ((approvedCookiePrefix @ toHex bs @ str ''.'' @ b64enc payload)
        @ 59 # str '' HttpOnly; Secure; Path=/; SameSite=Lax; Max-Age=2592000'')
     = approvedCookiePrefix @ toHex bs @ str ''.'' @ b64enc payload"
    by (rule cookiePair_append [OF approved_header_no_semicolon])
  then show ?thesis by (simp add: str_def)
qed

lemma addApprovedClient_twice:
  assumes first: "addApprovedClient P request (JStr clientId) secret = Inr cookie1"
      and found: "getApprovedClientsFromCookie P request secret = Inr found"
      and rt: "JSON_parse P (JSON_stringify P (JArr (map JStr
                  (setToArray ((case found of None \<Rightarrow> [] | Some xs \<Rightarrow> xs) @ [clientId])))))
               = Some (JArr (map JStr
                  (setToArray ((case found of None \<Rightarrow> [] | Some xs \<Rightarrow> xs) @ [clientId]))))"
  shows "addApprovedClient P (request\<lparr>cookie_header := Some (cookiePair cookie1)\<rparr>) (JStr clientId) secret
           = Inr cookie1
       \<and> getApprovedClientsFromCookie P (request\<lparr>cookie_header := Some (cookiePair cookie1)\<rparr>) secret
           = Inr (Some (setToArray ((case found of None \<Rightarrow> [] | Some xs \<Rightarrow> xs) @ [clientId])))
       \<and> count_list (setToArray ((case found of None \<Rightarrow> [] | Some xs \<Rightarrow> xs) @ [clientId])) clientId = 1
       \<and> (found = None \<longrightarrow>
            setToArray ((case found of None \<Rightarrow> [] | Some xs \<Rightarrow> xs) @ [clientId]) = [clientId])"
proof -
  define existing where "existing = (case found of None \<Rightarrow> [] | Some xs \<Rightarrow> xs)"
  define ys where "ys = setToArray (existing @ [clientId])"
  define payload where "payload = JSON_stringify P (JArr (map JStr ys))"
  define req2 where "req2 = request\<lparr>cookie_header := Some (cookiePair cookie1)\<rparr>"
  have upd: "setToArray (map JStr existing @ [JStr clientId]) = map JStr ys"
    using setToArray_map [OF inj_JStr, of "existing @ [clientId]"] by (simp add: ys_def)
  from addApprovedClient_cookie [OF first] obtain found' payload'
    where f': "getApprovedClientsFromCookie P request secret = Inr found'"
      and p': "payload' = JSON_stringify P (JArr (setToArray
          (map JStr (case found' of None \<Rightarrow> [] | Some xs \<Rightarrow> xs) @ [JStr clientId])))"
      and key: "\<not> rejects_key P secret"
      and bytes': "\<forall>x \<in> set payload'. x < 256"
      and c1': "cookie1 = approvedCookiePrefix @ toHex (bufferBytes (hmac_sha256 P secret payload'))
          @ str ''.'' @ b64enc payload'
          @ str ''; HttpOnly; Secure; Path=/; SameSite=Lax; Max-Age=2592000''"
    by blast
  from f' found have "found' = found" by simp
  with p' have pe: "payload' = payload"
    unfolding payload_def upd [symmetric] existing_def by simp
  from bytes' pe have bytes: "\<forall>x \<in> set payload. x < 256" by simp
  from c1' pe have c1: "cookie1 = approvedCookiePrefix @ toHex (bufferBytes (hmac_sha256 P secret payload))
          @ str ''.'' @ b64enc payload
          @ str ''; HttpOnly; Secure; Path=/; SameSite=Lax; Max-Age=2592000''"
    by simp
  have hdr: "cookie_header req2
      = Some (approvedCookiePrefix @ toHex (bufferBytes (hmac_sha256 P secret payload))
              @ str ''.'' @ b64enc payload)"
    by (simp add: req2_def c1 approved_cookie_pair)
  from rt have parse: "JSON_parse P payload = Some (JArr (map JStr ys))"
    by (simp add: payload_def ys_def existing_def)
  have read: "getApprovedClientsFromCookie P req2 secret = Inr (Some ys)"
    by (simp add: approved_cookie_read [OF key bytes hdr] parse stringArray_strings)
  have again: "setToArray (map JStr ys @ [JStr clientId]) = map JStr ys"
    using setToArray_map [OF inj_JStr, of "ys @ [clientId]"] setToArray_again [of existing clientId]
    by (simp add: ys_def)
  have btoa: "btoa payload = Inr (b64enc payload)"
    using bytes by (auto simp: btoa_def)
  have second: "addApprovedClient P req2 (JStr clientId) secret = Inr cookie1"
    unfolding addApprovedClient_def read
    using key by (simp add: again Let_def payload_def [symmetric] signData_def importKey_def btoa c1)
  have mem: "clientId \<in> set ys" by (simp add: ys_def set_setToArray)
  have cnt: "count_list ys clientId = 1"
    using count_list_distinct [OF _ mem] by (simp add: ys_def distinct_setToArray)
  have empty: "found = None \<Longrightarrow> ys = [clientId]"
    by (simp add: ys_def existing_def setToArray_def)
  from second read cnt empty show ?thesis
    by (simp add: req2_def ys_def existing_def)
qed

text \<open>The sample runtime, evaluated.\<close>

lemmas sample_eval =
  sample_platform_def sample_word_def sample_parse_def sample_values_def str_def
  bufferBytes_def toHex_def byteHex_def hexDigit_def stateKey_def

lemma upt_32:
  "[0..<32] = [0, 1, 2, 3, 4, 5, 6, 7, 8, 9, 10, 11, 12, 13, 14, 15, 16, 17, 18, 19, 20, 21, 22,
     23, 24, 25, 26, 27, 28, 29, 30, 31]"
  by (simp add: upt_rec)

lemma sample_bound_cookie:
  "cookiePair (bind_setCookie (bindStateToSession sample_platform (str ''S1'')))
     = str ''__Host-CONSENTED_STATE=04fa94dd11b4276cf32c50eeaa27e0ab59100e72d48abc6b9b8d5dd2c8198608''"
  unfolding bound_cookie_pair by (simp add: sample_eval upt_32)

lemma sample_bound_cookie_other:
  "cookiePair (bind_setCookie (bindStateToSession sample_platform (str ''S2'')))
     = str ''__Host-CONSENTED_STATE=a3320e9690fea382e6c9114f0715a8df699235dec82d2ebd93f9c7e498db149d''"
  unfolding bound_cookie_pair by (simp add: sample_eval upt_32)

lemma sample_accepts_key: "\<not> rejects_key sample_platform (str ''secret'')"
  by (simp add: sample_platform_def str_def)

lemma sample_mac:
  "bufferBytes (hmac_sha256 sample_platform (str ''secret'') (str ''[\"abc123\"]''))
     = [0xde, 0x55, 0x0f, 0xee, 0xf1, 0xed, 0x02, 0xe3, 0x92, 0xd1, 0x00, 0x93, 0x6c, 0xf6, 0x8a, 0xe8,
        0x90, 0x84, 0x46, 0x0b, 0x9e, 0xb3, 0xac, 0xde, 0x31, 0x02, 0x53, 0x30, 0xbf, 0x1e, 0x37, 0x05]"
  by (simp add: sample_platform_def sample_word_def str_def bufferBytes_def upt_32)

lemma sample_signature:
  "toHex (bufferBytes (hmac_sha256 sample_platform (str ''secret'') (str ''[\"abc123\"]'')))
     = str ''de550feef1ed02e392d100936cf68ae89084460b9eb3acde31025330bf1e3705''"
  unfolding sample_mac by (simp add: toHex_def byteHex_def hexDigit_def str_def)

lemmas decode_eval =
  str_def isLineTerminator_def parseInt16_def isWhiteSpace_def hexVal_def toUint8_def

lemma sample_payload:
  "JSON_stringify sample_platform (JArr [JStr (str ''abc123'')]) = str ''[\"abc123\"]''"
  by (simp add: sample_platform_def str_def)

lemma sample_btoa: "btoa (str ''[\"abc123\"]'') = Inr (str ''WyJhYmMxMjMiXQ=='')"
  by (simp add: btoa_def str_def b64char_def)

lemma sample_first_approval:
  "addApprovedClient sample_platform
      \<lparr>cookie_header = None, query_state = None, req_url = str ''https://mcp.example/authorize'',
       body_form = None\<rparr>
      (JStr (str ''abc123'')) (str ''secret'')
    = Inr (str ''__Host-APPROVED_CLIENTS=de550feef1ed02e392d100936cf68ae89084460b9eb3acde31025330bf1e3705.WyJhYmMxMjMiXQ==; HttpOnly; Secure; Path=/; SameSite=Lax; Max-Age=2592000'')"
proof -
  have g: "getApprovedClientsFromCookie sample_platform
      \<lparr>cookie_header = None, query_state = None, req_url = str ''https://mcp.example/authorize'',
       body_form = None\<rparr> (str ''secret'') = Inr None"
    by (simp add: getApprovedClientsFromCookie_def)
  have u: "setToArray [JStr (str ''abc123'')] = [JStr (str ''abc123'')]"
    by (simp add: setToArray_def)
  have s: "signData sample_platform (str ''[\"abc123\"]'') (str ''secret'')
     = Inr (str ''de550feef1ed02e392d100936cf68ae89084460b9eb3acde31025330bf1e3705'')"
    using sample_accepts_key by (simp add: signData_def importKey_def sample_signature)
  have j: "approvedCookiePrefix
      @ str ''de550feef1ed02e392d100936cf68ae89084460b9eb3acde31025330bf1e3705''
      @ str ''.'' @ str ''WyJhYmMxMjMiXQ==''
      @ str ''; HttpOnly; Secure; Path=/; SameSite=Lax; Max-Age=2592000''
     = str ''__Host-APPROVED_CLIENTS=de550feef1ed02e392d100936cf68ae89084460b9eb3acde31025330bf1e3705.WyJhYmMxMjMiXQ==; HttpOnly; Secure; Path=/; SameSite=Lax; Max-Age=2592000''"
    by (simp add: approvedCookiePrefix_def str_def)
  show ?thesis
    unfolding addApprovedClient_def g
    by (simp add: u sample_payload s sample_btoa j)
qed

section \<open>Properties of the CSRF check\<close>

lemmas csrf_eval =
  validateCSRFToken_def formData_get_def str_def findCookie_def csrfCookieName_def
  trim_def isWhiteSpace_def startsWith_def csrfCookieValue_def

text \<open>
  C7, as the code has it. \<open>validateCSRFToken\<close> succeeds exactly when the form's
  \<open>csrf_token\<close> field is a string that is not empty and the request's CSRF cookie has
  that same value. It fails when the form token is there and the cookie is not, and
  when both are there and differ. On success it returns the directive that expires
  the CSRF cookie.
\<close>

theorem validateCSRFToken_succeeds_iff:
  "((\<exists>r. validateCSRFToken formData request = Inr r) \<longleftrightarrow>
     (\<exists>t. t \<noteq> [] \<and> formData_get formData (str ''csrf_token'') = Some (FormString t)
          \<and> csrfCookieValue request = Some t))
   \<and> (\<forall>r. validateCSRFToken formData request = Inr r \<longrightarrow>
          csrf_clearCookie r = str ''__Host-CSRF_TOKEN=; HttpOnly; Secure; Path=/; SameSite=Lax; Max-Age=0'')
   \<and> (\<forall>t. formData_get formData (str ''csrf_token'') = Some (FormString t)
          \<and> csrfCookieValue request = None \<longrightarrow>
          (\<exists>e. validateCSRFToken formData request = Inl e))
   \<and> (\<forall>t c. formData_get formData (str ''csrf_token'') = Some (FormString t)
          \<and> csrfCookieValue request = Some c \<and> c \<noteq> t \<longrightarrow>
          (\<exists>e. validateCSRFToken formData request = Inl e))"
  by (auto simp: validateCSRFToken_def csrfCookieValue_def csrfCookieName_def str_def Let_def
      split: option.splits form_entry.splits if_splits)

theorem validateCSRFToken_succeeds_iff_witness:
  "(\<exists>r. validateCSRFToken [(str ''csrf_token'', FormString (str ''T1''))]
     \<lparr>cookie_header = Some (str ''a=b; __Host-CSRF_TOKEN=T1''), query_state = None,
      req_url = str ''https://mcp.example/authorize'', body_form = None\<rparr> = Inr r)
   \<and> (\<exists>e. validateCSRFToken [(str ''csrf_token'', FormString (str ''T1''))]
     \<lparr>cookie_header = Some (str ''a=b; __Host-CSRF_TOKEN=T2''), query_state = None,
      req_url = str ''https://mcp.example/authorize'', body_form = None\<rparr> = Inl e)
   \<and> (\<exists>e. validateCSRFToken [(str ''csrf_token'', FormString (str ''T1''))]
     \<lparr>cookie_header = Some (str ''a=b''), query_state = None,
      req_url = str ''https://mcp.example/authorize'', body_form = None\<rparr> = Inl e)"
proof -
  let ?fd = "[(str ''csrf_token'', FormString (str ''T1''))]"
  let ?ok = "\<lparr>cookie_header = Some (str ''a=b; __Host-CSRF_TOKEN=T1''), query_state = None,
      req_url = str ''https://mcp.example/authorize'', body_form = None\<rparr>"
  let ?bad = "\<lparr>cookie_header = Some (str ''a=b; __Host-CSRF_TOKEN=T2''), query_state = None,
      req_url = str ''https://mcp.example/authorize'', body_form = None\<rparr>"
  let ?none = "\<lparr>cookie_header = Some (str ''a=b''), query_state = None,
      req_url = str ''https://mcp.example/authorize'', body_form = None\<rparr>"
  have f: "formData_get ?fd (str ''csrf_token'') = Some (FormString (str ''T1''))"
    by (simp add: formData_get_def)
  have c1: "csrfCookieValue ?ok = Some (str ''T1'')"
    by (simp add: csrf_eval)
  have c2: "csrfCookieValue ?bad = Some (str ''T2'')"
    by (simp add: csrf_eval)
  have c3: "csrfCookieValue ?none = None"
    by (simp add: csrf_eval)
  have ne: "str ''T1'' \<noteq> []" "str ''T2'' \<noteq> str ''T1''"
    by (simp_all add: str_def)
  from validateCSRFToken_succeeds_iff [of ?fd ?ok] f c1 ne
  have "\<exists>r. validateCSRFToken ?fd ?ok = Inr r" by blast
  moreover from validateCSRFToken_succeeds_iff [of ?fd ?bad] f c2 ne
  have "\<exists>e. validateCSRFToken ?fd ?bad = Inl e" by blast
  moreover from validateCSRFToken_succeeds_iff [of ?fd ?none] f c3
  have "\<exists>e. validateCSRFToken ?fd ?none = Inl e" by blast
  ultimately show ?thesis by blast
qed

text \<open>
  C7, as the specification words it, fails for the empty token: a form field
  \<open>csrf_token\<close> that is the empty string and a CSRF cookie of empty value are both
  present and equal, and the source's \<open>!tokenFromForm\<close> rejects them.
\<close>

theorem validateCSRFToken_rejects_empty_token:
  "formData_get [(str ''csrf_token'', FormString [])] (str ''csrf_token'') = Some (FormString [])
   \<and> csrfCookieValue
        \<lparr>cookie_header = Some (str ''__Host-CSRF_TOKEN=''), query_state = None,
         req_url = str ''https://mcp.example/authorize'', body_form = None\<rparr> = Some []
   \<and> validateCSRFToken [(str ''csrf_token'', FormString [])]
        \<lparr>cookie_header = Some (str ''__Host-CSRF_TOKEN=''), query_state = None,
         req_url = str ''https://mcp.example/authorize'', body_form = None\<rparr>
      = Inl (OAuthError (str ''invalid_request'') (str ''Missing CSRF token in form data'') 400)"
  by (simp add: csrf_eval)

text \<open>
  C1, as the code has it. Every failure of \<open>validateCSRFToken\<close> is an \<open>OAuthError\<close> of
  code \<open>invalid_request\<close> and status 400, whatever the cause. Its description is one
  of three texts, and \<open>toResponse\<close> copies it into the body that the client receives.
\<close>

theorem validateCSRFToken_error_uniform_class:
  assumes "validateCSRFToken formData request = Inl e"
  shows "code e = str ''invalid_request'' \<and> statusCode e = 400
     \<and> description e \<in> {str ''Missing CSRF token in form data'', str ''Missing CSRF token cookie'',
                          str ''CSRF token mismatch''}
     \<and> toResponse e =
         \<lparr>status = 400, headers = [(str ''Content-Type'', str ''application/json'')],
          body = JsonBody (JObj [(str ''error'', JStr (str ''invalid_request'')),
                                 (str ''error_description'', JStr (description e))])\<rparr>"
  using assms
  by (auto simp: validateCSRFToken_def toResponse_def Let_def
      split: option.splits form_entry.splits if_splits)

theorem validateCSRFToken_error_uniform_class_witness:
  "code (OAuthError (str ''invalid_request'') (str ''Missing CSRF token cookie'') 400)
     = str ''invalid_request''
   \<and> validateCSRFToken [(str ''csrf_token'', FormString (str ''T1''))]
     \<lparr>cookie_header = None, query_state = None,
      req_url = str ''https://mcp.example/authorize'', body_form = None\<rparr>
     = Inl (OAuthError (str ''invalid_request'') (str ''Missing CSRF token cookie'') 400)"
proof -
  have h: "validateCSRFToken [(str ''csrf_token'', FormString (str ''T1''))]
     \<lparr>cookie_header = None, query_state = None,
      req_url = str ''https://mcp.example/authorize'', body_form = None\<rparr>
     = Inl (OAuthError (str ''invalid_request'') (str ''Missing CSRF token cookie'') 400)"
    by (simp add: csrf_eval)
  from validateCSRFToken_error_uniform_class [OF h] h show ?thesis by blast
qed

text \<open>
  C1, as the specification words it, fails: a POST without the form token and a POST
  without the cookie get responses that differ, so the response tells which half was
  missing.
\<close>

theorem validateCSRFToken_error_reveals_cause:
  "validateCSRFToken []
     \<lparr>cookie_header = None, query_state = None,
      req_url = str ''https://mcp.example/authorize'', body_form = None\<rparr>
     = Inl (OAuthError (str ''invalid_request'') (str ''Missing CSRF token in form data'') 400)
   \<and> validateCSRFToken [(str ''csrf_token'', FormString (str ''T1''))]
     \<lparr>cookie_header = None, query_state = None,
      req_url = str ''https://mcp.example/authorize'', body_form = None\<rparr>
     = Inl (OAuthError (str ''invalid_request'') (str ''Missing CSRF token cookie'') 400)
   \<and> toResponse (OAuthError (str ''invalid_request'') (str ''Missing CSRF token in form data'') 400)
     \<noteq> toResponse (OAuthError (str ''invalid_request'') (str ''Missing CSRF token cookie'') 400)"
  by (simp add: csrf_eval toResponse_def)

section \<open>Properties of the state token\<close>

text \<open>
  C3. When \<open>validateOAuthState\<close> succeeds for the state token \<open>t\<close>, it returns the
  request that was stored under \<open>oauth:state:t\<close>, that key is deleted from the store
  it leaves (and no other), and any later call with the same token on that store fails
  with the \<open>invalid_request\<close> error "Invalid or expired state": a consumed token does
  not validate again.
\<close>

theorem validateOAuthState_single_use:
  assumes ok: "validateOAuthState P request kv = (Inr r, kv')"
      and q: "query_state request = Some t"
  shows "(\<exists>v ttl. kv (stateKey t) = Some (v, ttl) \<and> JSON_parse P v = Some (vs_oauthReqInfo r))
       \<and> kv' = kv(stateKey t := None)
       \<and> kv' (stateKey t) = None
       \<and> (\<forall>request'. query_state request' = Some t \<longrightarrow>
             validateOAuthState P request' kv' =
               (Inl (OAuthError (str ''invalid_request'') (str ''Invalid or expired state'') 400), kv'))"
proof -
  from ok q have del: "kv' = kv(stateKey t := None)"
    by (auto simp: validateOAuthState_def Let_def split: option.splits if_splits)
  from ok q have stored: "\<exists>v ttl. kv (stateKey t) = Some (v, ttl) \<and> JSON_parse P v = Some (vs_oauthReqInfo r)"
    by (auto simp: validateOAuthState_def kv_get_def Let_def split: option.splits if_splits)
  from ok q have ne: "t \<noteq> []"
    by (auto simp: validateOAuthState_def Let_def split: option.splits if_splits)
  have gone: "kv_get kv' (stateKey t) = None"
    by (simp add: del kv_get_def)
  have again: "validateOAuthState P request' kv' =
      (Inl (OAuthError (str ''invalid_request'') (str ''Invalid or expired state'') 400), kv')"
    if "query_state request' = Some t" for request'
    using that ne gone by (simp add: validateOAuthState_def)
  from del stored again show ?thesis by simp
qed

theorem validateOAuthState_single_use_witness:
  "validateOAuthState sample_platform
      \<lparr>cookie_header = Some (str ''__Host-CONSENTED_STATE=04fa94dd11b4276cf32c50eeaa27e0ab59100e72d48abc6b9b8d5dd2c8198608''),
       query_state = Some (str ''S1''), req_url = str ''https://mcp.example/callback?code=c&state=S1'',
       body_form = None\<rparr>
      [stateKey (str ''S1'') \<mapsto> (str ''{\"clientId\":\"abc123\"}'', 600)]
    = (Inr \<lparr>vs_oauthReqInfo = JObj [(str ''clientId'', JStr (str ''abc123''))],
            vs_clearCookie = str ''__Host-CONSENTED_STATE=; HttpOnly; Secure; Path=/; SameSite=Lax; Max-Age=0''\<rparr>,
       [stateKey (str ''S1'') \<mapsto> (str ''{\"clientId\":\"abc123\"}'', 600)](stateKey (str ''S1'') := None))
   \<and> validateOAuthState sample_platform
      \<lparr>cookie_header = Some (str ''__Host-CONSENTED_STATE=04fa94dd11b4276cf32c50eeaa27e0ab59100e72d48abc6b9b8d5dd2c8198608''),
       query_state = Some (str ''S1''), req_url = str ''https://mcp.example/callback?code=c&state=S1'',
       body_form = None\<rparr>
      ([stateKey (str ''S1'') \<mapsto> (str ''{\"clientId\":\"abc123\"}'', 600)](stateKey (str ''S1'') := None))
    = (Inl (OAuthError (str ''invalid_request'') (str ''Invalid or expired state'') 400),
       [stateKey (str ''S1'') \<mapsto> (str ''{\"clientId\":\"abc123\"}'', 600)](stateKey (str ''S1'') := None))"
proof -
  let ?req = "\<lparr>cookie_header = Some (str ''__Host-CONSENTED_STATE=04fa94dd11b4276cf32c50eeaa27e0ab59100e72d48abc6b9b8d5dd2c8198608''),
       query_state = Some (str ''S1''), req_url = str ''https://mcp.example/callback?code=c&state=S1'',
       body_form = None\<rparr>"
  let ?kv = "[stateKey (str ''S1'') \<mapsto> (str ''{\"clientId\":\"abc123\"}'', 600::nat)]"
  have q: "query_state ?req = Some (str ''S1'')" by simp
  have c: "cookie_header ?req = Some (cookiePair (bind_setCookie (bindStateToSession sample_platform (str ''S1''))))"
    by (simp only: sample_bound_cookie request.simps)
  have p: "JSON_parse sample_platform (str ''{\"clientId\":\"abc123\"}'')
      = Some (JObj [(str ''clientId'', JStr (str ''abc123''))])"
    by (simp add: sample_eval)
  have k: "?kv (stateKey (str ''S1'')) = Some (str ''{\"clientId\":\"abc123\"}'', 600)" by simp
  have ne: "str ''S1'' \<noteq> []" "str ''{\"clientId\":\"abc123\"}'' \<noteq> []"
    by (simp_all add: str_def)
  have first: "validateOAuthState sample_platform ?req ?kv
    = (Inr \<lparr>vs_oauthReqInfo = JObj [(str ''clientId'', JStr (str ''abc123''))],
            vs_clearCookie = str ''__Host-CONSENTED_STATE=; HttpOnly; Secure; Path=/; SameSite=Lax; Max-Age=0''\<rparr>,
       ?kv(stateKey (str ''S1'') := None))"
    using validateOAuthState_bound [where kv = "?kv" and P = sample_platform, OF q ne(1) k ne(2) c] p
    by simp
  note second = validateOAuthState_single_use [OF first q, THEN conjunct2, THEN conjunct2,
      THEN conjunct2, rule_format, OF q]
  from first second show ?thesis by (rule conjI)
qed

text \<open>
  C4. Let the store hold a record for the token \<open>t\<close> of the callback's \<open>state\<close>
  parameter, and let the request's \<open>Cookie\<close> header carry a binding cookie among any
  other cookies (none of the cookies before it being a binding cookie itself). With
  the cookie that \<open>bindStateToSession t\<close> set, the call passes the session-binding
  check: it goes on to parse the record, and succeeds when the record parses. With
  the cookie of another token whose SHA-256 digest differs, it fails with the mismatch
  error. Without a binding cookie it fails with the missing-cookie error, which is a
  different error of the same code and status.
\<close>

theorem session_binding_round_trip:
  assumes q: "query_state request = Some t" "t \<noteq> []"
      and live: "kv (stateKey t) = Some (v, ttl)" "v \<noteq> []"
      and others: "\<forall>c \<in> set before.
             59 \<notin> set c \<and> \<not> startsWith (trim c) (consentedStateCookieName @ str ''='')"
      and rest: "rest = [] \<or> hd rest = 59"
  shows "(cookie_header request
            = Some (sendCookies before (cookiePair (bind_setCookie (bindStateToSession P t))) rest) \<longrightarrow>
            validateOAuthState P request kv =
              (case JSON_parse P v of
                 None \<Rightarrow> (Inl (OAuthError (str ''server_error'') (str ''Invalid state data'') 500), kv)
               | Some info \<Rightarrow>
                   (Inr \<lparr>vs_oauthReqInfo = info,
                         vs_clearCookie =
                           str ''__Host-CONSENTED_STATE=; HttpOnly; Secure; Path=/; SameSite=Lax; Max-Age=0''\<rparr>,
                    kv(stateKey t := None))))
       \<and> (\<forall>t'. sha256 P t' \<noteq> sha256 P t
              \<and> cookie_header request
                  = Some (sendCookies before (cookiePair (bind_setCookie (bindStateToSession P t'))) rest)
              \<longrightarrow>
            validateOAuthState P request kv =
              (Inl (OAuthError (str ''invalid_request'')
                     (str ''State token does not match session - possible CSRF attack detected'') 400), kv))
       \<and> (findCookie consentedStateCookieName
              (case cookie_header request of None \<Rightarrow> [] | Some h \<Rightarrow> h) = None \<longrightarrow>
            validateOAuthState P request kv =
              (Inl (OAuthError (str ''invalid_request'')
                     (str ''Missing session binding cookie - authorization flow must be restarted'') 400), kv))
       \<and> OAuthError (str ''invalid_request'')
             (str ''Missing session binding cookie - authorization flow must be restarted'') 400
           \<noteq> OAuthError (str ''invalid_request'')
             (str ''State token does not match session - possible CSRF attack detected'') 400"
proof (intro conjI impI allI)
  assume "cookie_header request
      = Some (sendCookies before (cookiePair (bind_setCookie (bindStateToSession P t))) rest)"
  from validateOAuthState_bound_among [where kv = kv and P = P, OF q live others rest this]
  show "validateOAuthState P request kv =
              (case JSON_parse P v of
                 None \<Rightarrow> (Inl (OAuthError (str ''server_error'') (str ''Invalid state data'') 500), kv)
               | Some info \<Rightarrow>
                   (Inr \<lparr>vs_oauthReqInfo = info,
                         vs_clearCookie =
                           str ''__Host-CONSENTED_STATE=; HttpOnly; Secure; Path=/; SameSite=Lax; Max-Age=0''\<rparr>,
                    kv(stateKey t := None)))"
    by simp
next
  fix t'
  assume a: "sha256 P t' \<noteq> sha256 P t
     \<and> cookie_header request
         = Some (sendCookies before (cookiePair (bind_setCookie (bindStateToSession P t'))) rest)"
  then have c: "cookie_header request
      = Some (sendCookies before (cookiePair (bind_setCookie (bindStateToSession P t'))) rest)"
    by simp
  from validateOAuthState_bound_among [where kv = kv and P = P, OF q live others rest c] a
  show "validateOAuthState P request kv =
              (Inl (OAuthError (str ''invalid_request'')
                     (str ''State token does not match session - possible CSRF attack detected'') 400), kv)"
    by simp
next
  assume "findCookie consentedStateCookieName
              (case cookie_header request of None \<Rightarrow> [] | Some h \<Rightarrow> h) = None"
  then have "map_option (drop (length consentedStateCookieName + 1))
             (findCookie consentedStateCookieName
               (case cookie_header request of None \<Rightarrow> [] | Some h \<Rightarrow> h)) = None"
    by simp
  from validateOAuthState_after_lookup [where kv = kv and P = P, OF q live this]
  show "validateOAuthState P request kv =
              (Inl (OAuthError (str ''invalid_request'')
                     (str ''Missing session binding cookie - authorization flow must be restarted'') 400), kv)"
    by simp
next
  show "OAuthError (str ''invalid_request'')
             (str ''Missing session binding cookie - authorization flow must be restarted'') 400
           \<noteq> OAuthError (str ''invalid_request'')
             (str ''State token does not match session - possible CSRF attack detected'') 400"
    by (simp add: str_def)
qed

theorem session_binding_round_trip_witness:
  "validateOAuthState sample_platform
      \<lparr>cookie_header = Some (str ''__Host-CSRF_TOKEN=T1; __Host-CONSENTED_STATE=04fa94dd11b4276cf32c50eeaa27e0ab59100e72d48abc6b9b8d5dd2c8198608; __Host-APPROVED_CLIENTS=de550feef1ed02e392d100936cf68ae89084460b9eb3acde31025330bf1e3705.WyJhYmMxMjMiXQ==''),
       query_state = Some (str ''S1''), req_url = str ''https://mcp.example/callback?code=c&state=S1'',
       body_form = None\<rparr>
      [stateKey (str ''S1'') \<mapsto> (str ''{\"clientId\":\"abc123\"}'', 600)]
    = (Inr \<lparr>vs_oauthReqInfo = JObj [(str ''clientId'', JStr (str ''abc123''))],
            vs_clearCookie = str ''__Host-CONSENTED_STATE=; HttpOnly; Secure; Path=/; SameSite=Lax; Max-Age=0''\<rparr>,
       [stateKey (str ''S1'') \<mapsto> (str ''{\"clientId\":\"abc123\"}'', 600)](stateKey (str ''S1'') := None))
   \<and> validateOAuthState sample_platform
      \<lparr>cookie_header = Some (str ''__Host-CSRF_TOKEN=T1; __Host-CONSENTED_STATE=a3320e9690fea382e6c9114f0715a8df699235dec82d2ebd93f9c7e498db149d''),
       query_state = Some (str ''S1''), req_url = str ''https://mcp.example/callback?code=c&state=S1'',
       body_form = None\<rparr>
      [stateKey (str ''S1'') \<mapsto> (str ''{\"clientId\":\"abc123\"}'', 600)]
    = (Inl (OAuthError (str ''invalid_request'')
             (str ''State token does not match session - possible CSRF attack detected'') 400),
       [stateKey (str ''S1'') \<mapsto> (str ''{\"clientId\":\"abc123\"}'', 600)])
   \<and> validateOAuthState sample_platform
      \<lparr>cookie_header = Some (str ''__Host-CSRF_TOKEN=T1''),
       query_state = Some (str ''S1''), req_url = str ''https://mcp.example/callback?code=c&state=S1'',
       body_form = None\<rparr>
      [stateKey (str ''S1'') \<mapsto> (str ''{\"clientId\":\"abc123\"}'', 600)]
    = (Inl (OAuthError (str ''invalid_request'')
             (str ''Missing session binding cookie - authorization flow must be restarted'') 400),
       [stateKey (str ''S1'') \<mapsto> (str ''{\"clientId\":\"abc123\"}'', 600)])"
proof -
  let ?own = "\<lparr>cookie_header = Some (str ''__Host-CSRF_TOKEN=T1; __Host-CONSENTED_STATE=04fa94dd11b4276cf32c50eeaa27e0ab59100e72d48abc6b9b8d5dd2c8198608; __Host-APPROVED_CLIENTS=de550feef1ed02e392d100936cf68ae89084460b9eb3acde31025330bf1e3705.WyJhYmMxMjMiXQ==''),
       query_state = Some (str ''S1''), req_url = str ''https://mcp.example/callback?code=c&state=S1'',
       body_form = None\<rparr>"
  let ?other = "\<lparr>cookie_header = Some (str ''__Host-CSRF_TOKEN=T1; __Host-CONSENTED_STATE=a3320e9690fea382e6c9114f0715a8df699235dec82d2ebd93f9c7e498db149d''),
       query_state = Some (str ''S1''), req_url = str ''https://mcp.example/callback?code=c&state=S1'',
       body_form = None\<rparr>"
  let ?none = "\<lparr>cookie_header = Some (str ''__Host-CSRF_TOKEN=T1''),
       query_state = Some (str ''S1''), req_url = str ''https://mcp.example/callback?code=c&state=S1'',
       body_form = None\<rparr>"
  let ?kv = "[stateKey (str ''S1'') \<mapsto> (str ''{\"clientId\":\"abc123\"}'', 600::nat)]"
  let ?before = "[str ''__Host-CSRF_TOKEN=T1'']"
  let ?rest = "str ''; __Host-APPROVED_CLIENTS=de550feef1ed02e392d100936cf68ae89084460b9eb3acde31025330bf1e3705.WyJhYmMxMjMiXQ==''"
  have k: "?kv (stateKey (str ''S1'')) = Some (str ''{\"clientId\":\"abc123\"}'', 600)" by simp
  have ne: "str ''S1'' \<noteq> []" "str ''{\"clientId\":\"abc123\"}'' \<noteq> []"
    by (simp_all add: str_def)
  have p: "JSON_parse sample_platform (str ''{\"clientId\":\"abc123\"}'')
      = Some (JObj [(str ''clientId'', JStr (str ''abc123''))])"
    by (simp add: sample_eval)
  have d: "sha256 sample_platform (str ''S2'') \<noteq> sha256 sample_platform (str ''S1'')"
    by (simp add: sample_eval)
  have others: "\<forall>c \<in> set ?before.
      59 \<notin> set c \<and> \<not> startsWith (trim c) (consentedStateCookieName @ str ''='')"
    by (simp add: str_def trim_def isWhiteSpace_def startsWith_def consentedStateCookieName_def)
  have r1: "?rest = [] \<or> hd ?rest = 59" by (simp add: str_def)
  have r2: "([]::jsstring) = [] \<or> hd ([]::jsstring) = 59" by simp
  have c1: "cookie_header ?own
      = Some (sendCookies ?before
                (cookiePair (bind_setCookie (bindStateToSession sample_platform (str ''S1'')))) ?rest)"
    unfolding sample_bound_cookie by (simp add: sendCookies_def str_def)
  have c2: "cookie_header ?other
      = Some (sendCookies ?before
                (cookiePair (bind_setCookie (bindStateToSession sample_platform (str ''S2'')))) [])"
    unfolding sample_bound_cookie_other by (simp add: sendCookies_def str_def)
  have c3: "findCookie consentedStateCookieName
      (case cookie_header ?none of None \<Rightarrow> [] | Some h \<Rightarrow> h) = None"
    by (simp add: findCookie_def trim_def isWhiteSpace_def startsWith_def
        consentedStateCookieName_def str_def)
  note own = session_binding_round_trip [where kv = "?kv" and P = sample_platform
      and request = "?own", OF _ ne(1) k ne(2) others r1, THEN conjunct1, rule_format, OF _ c1]
  note other = session_binding_round_trip [where kv = "?kv" and P = sample_platform
      and request = "?other", OF _ ne(1) k ne(2) others r2, THEN conjunct2, THEN conjunct1,
      rule_format, OF _ conjI [OF d c2]]
  note none = session_binding_round_trip [where kv = "?kv" and P = sample_platform
      and request = "?none", OF _ ne(1) k ne(2) others r2, THEN conjunct2, THEN conjunct2,
      THEN conjunct1, rule_format, OF _ c3]
  from own p have 1: "validateOAuthState sample_platform ?own ?kv
    = (Inr \<lparr>vs_oauthReqInfo = JObj [(str ''clientId'', JStr (str ''abc123''))],
            vs_clearCookie = str ''__Host-CONSENTED_STATE=; HttpOnly; Secure; Path=/; SameSite=Lax; Max-Age=0''\<rparr>,
       ?kv(stateKey (str ''S1'') := None))"
    by simp
  from other have 2: "validateOAuthState sample_platform ?other ?kv
    = (Inl (OAuthError (str ''invalid_request'')
             (str ''State token does not match session - possible CSRF attack detected'') 400), ?kv)"
    by simp
  from none have 3: "validateOAuthState sample_platform ?none ?kv
    = (Inl (OAuthError (str ''invalid_request'')
             (str ''Missing session binding cookie - authorization flow must be restarted'') 400), ?kv)"
    by simp
  from 1 2 3 show ?thesis by (intro conjI)
qed

text \<open>
  C10. \<open>validateOAuthState\<close> changes nothing when it fails: whatever error it throws,
  the store is the one it was given, and an error carries no clear-cookie directive.
  The record is deleted, and the directive returned, on the successful path only.
  A missing \<open>state\<close> parameter and a token that is not in the store are such
  failures; and when the binding cookie of the token is in the header, among any other
  cookies, a stored payload that \<open>JSON.parse\<close> rejects gives the 500
  \<open>server_error\<close> while the record stays in the store.
\<close>

theorem validateOAuthState_failure_keeps_store:
  "(\<forall>e kv'. validateOAuthState P request kv = (Inl e, kv') \<longrightarrow> kv' = kv)
   \<and> (\<forall>r kv'. validateOAuthState P request kv = (Inr r, kv') \<longrightarrow>
         (\<exists>t. query_state request = Some t \<and> kv' = kv(stateKey t := None))
         \<and> vs_clearCookie r
             = str ''__Host-CONSENTED_STATE=; HttpOnly; Secure; Path=/; SameSite=Lax; Max-Age=0'')
   \<and> (query_state request = None \<longrightarrow>
         validateOAuthState P request kv =
           (Inl (OAuthError (str ''invalid_request'') (str ''Missing state parameter'') 400), kv))
   \<and> (\<forall>t. query_state request = Some t \<and> t \<noteq> [] \<and> kv (stateKey t) = None \<longrightarrow>
         validateOAuthState P request kv =
           (Inl (OAuthError (str ''invalid_request'') (str ''Invalid or expired state'') 400), kv))
   \<and> (\<forall>t v ttl before rest.
         query_state request = Some t \<and> t \<noteq> [] \<and> kv (stateKey t) = Some (v, ttl) \<and> v \<noteq> []
         \<and> (\<forall>c \<in> set before.
               59 \<notin> set c \<and> \<not> startsWith (trim c) (consentedStateCookieName @ str ''=''))
         \<and> (rest = [] \<or> hd rest = 59)
         \<and> cookie_header request
             = Some (sendCookies before (cookiePair (bind_setCookie (bindStateToSession P t))) rest)
         \<and> JSON_parse P v = None \<longrightarrow>
         validateOAuthState P request kv =
           (Inl (OAuthError (str ''server_error'') (str ''Invalid state data'') 500), kv)
         \<and> kv (stateKey t) = Some (v, ttl))"
proof (intro conjI allI impI)
  fix e kv'
  assume "validateOAuthState P request kv = (Inl e, kv')"
  then show "kv' = kv"
    by (auto simp: validateOAuthState_def Let_def split: option.splits if_splits)
next
  fix r kv'
  assume ok: "validateOAuthState P request kv = (Inr r, kv')"
  then show "\<exists>t. query_state request = Some t \<and> kv' = kv(stateKey t := None)"
    by (auto simp: validateOAuthState_def Let_def split: option.splits if_splits)
  from ok show "vs_clearCookie r
      = str ''__Host-CONSENTED_STATE=; HttpOnly; Secure; Path=/; SameSite=Lax; Max-Age=0''"
    by (auto simp: validateOAuthState_def Let_def consentedStateCookieName_def str_def
        split: option.splits if_splits)
next
  assume "query_state request = None"
  then show "validateOAuthState P request kv =
           (Inl (OAuthError (str ''invalid_request'') (str ''Missing state parameter'') 400), kv)"
    by (simp add: validateOAuthState_def)
next
  fix t
  assume "query_state request = Some t \<and> t \<noteq> [] \<and> kv (stateKey t) = None"
  then show "validateOAuthState P request kv =
           (Inl (OAuthError (str ''invalid_request'') (str ''Invalid or expired state'') 400), kv)"
    by (simp add: validateOAuthState_def kv_get_def)
next
  fix t v ttl before rest
  assume a: "query_state request = Some t \<and> t \<noteq> [] \<and> kv (stateKey t) = Some (v, ttl) \<and> v \<noteq> []
         \<and> (\<forall>c \<in> set before.
               59 \<notin> set c \<and> \<not> startsWith (trim c) (consentedStateCookieName @ str ''=''))
         \<and> (rest = [] \<or> hd rest = 59)
         \<and> cookie_header request
             = Some (sendCookies before (cookiePair (bind_setCookie (bindStateToSession P t))) rest)
         \<and> JSON_parse P v = None"
  then have h: "query_state request = Some t" "t \<noteq> []" "kv (stateKey t) = Some (v, ttl)" "v \<noteq> []"
    "\<forall>c \<in> set before.
        59 \<notin> set c \<and> \<not> startsWith (trim c) (consentedStateCookieName @ str ''='')"
    "rest = [] \<or> hd rest = 59"
    "cookie_header request
       = Some (sendCookies before (cookiePair (bind_setCookie (bindStateToSession P t))) rest)"
    and n: "JSON_parse P v = None"
    by blast+
  from validateOAuthState_bound_among [where kv = kv and P = P, OF h] n
  show "validateOAuthState P request kv =
           (Inl (OAuthError (str ''server_error'') (str ''Invalid state data'') 500), kv)"
    by simp
  from h show "kv (stateKey t) = Some (v, ttl)" by simp
qed

theorem validateOAuthState_failure_keeps_store_witness:
  "validateOAuthState sample_platform
      \<lparr>cookie_header = Some (str ''__Host-CSRF_TOKEN=T1; __Host-CONSENTED_STATE=04fa94dd11b4276cf32c50eeaa27e0ab59100e72d48abc6b9b8d5dd2c8198608''),
       query_state = Some (str ''S1''), req_url = str ''https://mcp.example/callback?code=c&state=S1'',
       body_form = None\<rparr>
      [stateKey (str ''S1'') \<mapsto> (str ''{clientId'', 600)]
    = (Inl (OAuthError (str ''server_error'') (str ''Invalid state data'') 500),
       [stateKey (str ''S1'') \<mapsto> (str ''{clientId'', 600)])
   \<and> [stateKey (str ''S1'') \<mapsto> (str ''{clientId'', 600::nat)] (stateKey (str ''S1''))
       = Some (str ''{clientId'', 600)"
proof -
  let ?req = "\<lparr>cookie_header = Some (str ''__Host-CSRF_TOKEN=T1; __Host-CONSENTED_STATE=04fa94dd11b4276cf32c50eeaa27e0ab59100e72d48abc6b9b8d5dd2c8198608''),
       query_state = Some (str ''S1''), req_url = str ''https://mcp.example/callback?code=c&state=S1'',
       body_form = None\<rparr>"
  let ?kv = "[stateKey (str ''S1'') \<mapsto> (str ''{clientId'', 600::nat)]"
  let ?before = "[str ''__Host-CSRF_TOKEN=T1'']"
  have q: "query_state ?req = Some (str ''S1'')" by simp
  have k: "?kv (stateKey (str ''S1'')) = Some (str ''{clientId'', 600)" by simp
  have ne: "str ''S1'' \<noteq> []" "str ''{clientId'' \<noteq> []"
    by (simp_all add: str_def)
  have p: "JSON_parse sample_platform (str ''{clientId'') = None"
    by (simp add: sample_eval)
  have others: "\<forall>c \<in> set ?before.
      59 \<notin> set c \<and> \<not> startsWith (trim c) (consentedStateCookieName @ str ''='')"
    by (simp add: str_def trim_def isWhiteSpace_def startsWith_def consentedStateCookieName_def)
  have r: "([]::jsstring) = [] \<or> hd ([]::jsstring) = 59" by simp
  have c: "cookie_header ?req
      = Some (sendCookies ?before
                (cookiePair (bind_setCookie (bindStateToSession sample_platform (str ''S1'')))) [])"
    unfolding sample_bound_cookie by (simp add: sendCookies_def str_def)
  have all: "query_state ?req = Some (str ''S1'') \<and> str ''S1'' \<noteq> []
       \<and> ?kv (stateKey (str ''S1'')) = Some (str ''{clientId'', 600) \<and> str ''{clientId'' \<noteq> []
       \<and> (\<forall>c \<in> set ?before.
             59 \<notin> set c \<and> \<not> startsWith (trim c) (consentedStateCookieName @ str ''=''))
       \<and> (([]::jsstring) = [] \<or> hd ([]::jsstring) = 59)
       \<and> cookie_header ?req
            = Some (sendCookies ?before
                (cookiePair (bind_setCookie (bindStateToSession sample_platform (str ''S1'')))) [])
       \<and> JSON_parse sample_platform (str ''{clientId'') = None"
    using q ne k others r c p by (intro conjI)
  show ?thesis
    by (rule validateOAuthState_failure_keeps_store [where kv = "?kv" and P = sample_platform
          and request = "?req", THEN conjunct2, THEN conjunct2, THEN conjunct2, THEN conjunct2,
          rule_format, OF all])
qed

section \<open>Properties of the consent POST handler\<close>

lemma validateCSRFToken_error_status:
  "validateCSRFToken formData request = Inl e \<Longrightarrow> statusCode e = 400"
  by (auto simp: validateCSRFToken_def Let_def split: option.splits form_entry.splits if_splits)

text \<open>
  C6. When \<open>validateCSRFToken\<close> throws in the POST handler, the handler answers with
  that error's response, whose only header is the content type (so no approved-clients
  cookie and no session-binding cookie is set), and leaves the store as it was. The
  store changes, or the redirect is sent, only on requests whose CSRF validation
  succeeded.
\<close>

theorem post_authorize_csrf_failure_no_effect:
  "(\<forall>formData e. body_form request = Some formData \<and> validateCSRFToken formData request = Inl e \<longrightarrow>
       post_authorize P cookieSecret uuid request kv = (toResponse e, kv)
       \<and> headers (fst (post_authorize P cookieSecret uuid request kv))
           = [(str ''Content-Type'', str ''application/json'')]
       \<and> snd (post_authorize P cookieSecret uuid request kv) = kv)
   \<and> (snd (post_authorize P cookieSecret uuid request kv) \<noteq> kv
        \<or> status (fst (post_authorize P cookieSecret uuid request kv)) = 302 \<longrightarrow>
       (\<exists>formData r. body_form request = Some formData \<and> validateCSRFToken formData request = Inr r))"
proof (intro conjI allI impI)
  fix formData e
  assume a: "body_form request = Some formData \<and> validateCSRFToken formData request = Inl e"
  then show r: "post_authorize P cookieSecret uuid request kv = (toResponse e, kv)"
    by (simp add: post_authorize_def)
  show "headers (fst (post_authorize P cookieSecret uuid request kv))
           = [(str ''Content-Type'', str ''application/json'')]"
    by (simp add: r toResponse_def)
  show "snd (post_authorize P cookieSecret uuid request kv) = kv"
    by (simp add: r)
next
  assume eff: "snd (post_authorize P cookieSecret uuid request kv) \<noteq> kv
        \<or> status (fst (post_authorize P cookieSecret uuid request kv)) = 302"
  show "\<exists>formData r. body_form request = Some formData \<and> validateCSRFToken formData request = Inr r"
  proof (cases "body_form request")
    case None
    with eff show ?thesis by (simp add: post_authorize_def c_text_def)
  next
    case (Some formData)
    show ?thesis
    proof (cases "validateCSRFToken formData request")
      case (Inl e)
      with Some eff validateCSRFToken_error_status [OF Inl] show ?thesis
        by (simp add: post_authorize_def toResponse_def)
    next
      case (Inr r)
      with Some show ?thesis by simp
    qed
  qed
qed

theorem post_authorize_csrf_failure_no_effect_witness:
  "post_authorize sample_platform (str ''secret'') (str ''S1'')
      \<lparr>cookie_header = Some (str ''__Host-CSRF_TOKEN=T2''), query_state = None,
       req_url = str ''https://mcp.example/authorize'',
       body_form = Some [(str ''state'', FormString (str ''eyJvYXV0aFJlcUluZm8iOnsiY2xpZW50SWQiOiJhYmMxMjMifX0='')),
                         (str ''csrf_token'', FormString (str ''T1''))]\<rparr>
      Map.empty
    = (\<lparr>status = 400, headers = [(str ''Content-Type'', str ''application/json'')],
        body = JsonBody (JObj [(str ''error'', JStr (str ''invalid_request'')),
                               (str ''error_description'', JStr (str ''CSRF token mismatch''))])\<rparr>,
       Map.empty)"
proof -
  let ?fd = "[(str ''state'', FormString (str ''eyJvYXV0aFJlcUluZm8iOnsiY2xpZW50SWQiOiJhYmMxMjMifX0='')),
              (str ''csrf_token'', FormString (str ''T1''))]"
  let ?req = "\<lparr>cookie_header = Some (str ''__Host-CSRF_TOKEN=T2''), query_state = None,
       req_url = str ''https://mcp.example/authorize'', body_form = Some ?fd\<rparr>"
  have h: "body_form ?req = Some ?fd
     \<and> validateCSRFToken ?fd ?req
         = Inl (OAuthError (str ''invalid_request'') (str ''CSRF token mismatch'') 400)"
    by (simp add: csrf_eval)
  from post_authorize_csrf_failure_no_effect [where request = "?req", THEN conjunct1, rule_format,
      OF h, THEN conjunct1, of sample_platform "str ''secret''" "str ''S1''" Map.empty]
  show ?thesis by (simp add: toResponse_def)
qed

text \<open>
  The other path, run on the sample runtime: a POST whose form token equals the CSRF
  cookie and whose \<open>state\<close> field names client \<open>abc123\<close> is answered with the
  redirect, and the state record is written under the drawn token.
\<close>

lemma sample_state_decoded:
  "atob (str ''eyJvYXV0aFJlcUluZm8iOnsiY2xpZW50SWQiOiJhYmMxMjMifX0='')
     = Inr (str ''{\"oauthReqInfo\":{\"clientId\":\"abc123\"}}'')"
  by (simp add: atob_def stripPadding_def isAsciiWhitespace_def b64val_def str_def)

lemma post_authorize_example:
  "post_authorize sample_platform (str ''secret'') (str ''S1'')
      \<lparr>cookie_header = Some (str ''__Host-CSRF_TOKEN=T1''), query_state = None,
       req_url = str ''https://mcp.example/authorize'',
       body_form = Some [(str ''state'', FormString (str ''eyJvYXV0aFJlcUluZm8iOnsiY2xpZW50SWQiOiJhYmMxMjMifX0='')),
                         (str ''csrf_token'', FormString (str ''T1''))]\<rparr>
      Map.empty
    = (\<lparr>status = 302,
        headers = [(str ''set-cookie'', str ''__Host-CONSENTED_STATE=04fa94dd11b4276cf32c50eeaa27e0ab59100e72d48abc6b9b8d5dd2c8198608; HttpOnly; Secure; Path=/; SameSite=Lax; Max-Age=600''),
                   (str ''Location'', str ''https://api.notion.com/v1/oauth/authorize?state=S1'')],
        body = NoBody\<rparr>,
       [stateKey (str ''S1'') \<mapsto> (str ''{\"clientId\":\"abc123\"}'', 600)])"
proof -
  let ?fd = "[(str ''state'', FormString (str ''eyJvYXV0aFJlcUluZm8iOnsiY2xpZW50SWQiOiJhYmMxMjMifX0='')),
              (str ''csrf_token'', FormString (str ''T1''))]"
  let ?req = "\<lparr>cookie_header = Some (str ''__Host-CSRF_TOKEN=T1''), query_state = None,
       req_url = str ''https://mcp.example/authorize'', body_form = Some ?fd\<rparr>"
  have csrf: "validateCSRFToken ?fd ?req
      = Inr \<lparr>csrf_clearCookie = str ''__Host-CSRF_TOKEN=; HttpOnly; Secure; Path=/; SameSite=Lax; Max-Age=0''\<rparr>"
    by (simp add: csrf_eval)
  have st: "formData_get ?fd (str ''state'')
      = Some (FormString (str ''eyJvYXV0aFJlcUluZm8iOnsiY2xpZW50SWQiOiJhYmMxMjMifX0=''))"
    by (simp add: formData_get_def str_def)
  have ne: "str ''eyJvYXV0aFJlcUluZm8iOnsiY2xpZW50SWQiOiJhYmMxMjMifX0='' \<noteq> []"
    by (simp add: str_def)
  have ne2: "str ''abc123'' \<noteq> []"
    by (simp add: str_def)
  have parse: "JSON_parse sample_platform (str ''{\"oauthReqInfo\":{\"clientId\":\"abc123\"}}'')
      = Some (JObj [(str ''oauthReqInfo'', JObj [(str ''clientId'', JStr (str ''abc123''))])])"
    by (simp add: sample_eval)
  have props: "jsonProp (JObj [(str ''oauthReqInfo'', JObj [(str ''clientId'', JStr (str ''abc123''))])])
        (str ''oauthReqInfo'') = Some (JObj [(str ''clientId'', JStr (str ''abc123''))])"
    "jsonProp (JObj [(str ''clientId'', JStr (str ''abc123''))]) (str ''clientId'')
       = Some (JStr (str ''abc123''))"
    "truthy (JStr (str ''abc123''))"
    by (simp_all add: jsonProp_def str_def)
  have approve: "addApprovedClient sample_platform ?req (JStr (str ''abc123'')) (str ''secret'')
    = Inr (str ''__Host-APPROVED_CLIENTS=de550feef1ed02e392d100936cf68ae89084460b9eb3acde31025330bf1e3705.WyJhYmMxMjMiXQ==; HttpOnly; Secure; Path=/; SameSite=Lax; Max-Age=2592000'')"
  proof -
    have g: "getApprovedClientsFromCookie sample_platform ?req (str ''secret'') = Inr None"
      by (simp add: getApprovedClientsFromCookie_def str_def trim_def isWhiteSpace_def
          startsWith_def approvedCookiePrefix_def)
    have "getApprovedClientsFromCookie sample_platform
        \<lparr>cookie_header = None, query_state = None, req_url = str ''https://mcp.example/authorize'',
         body_form = None\<rparr> (str ''secret'') = Inr None"
      by (simp add: getApprovedClientsFromCookie_def)
    with g sample_first_approval show ?thesis
      by (simp add: addApprovedClient_def)
  qed
  have created: "createOAuthState sample_platform (str ''S1'')
        (JObj [(str ''clientId'', JStr (str ''abc123''))]) Map.empty 600
      = (\<lparr>os_stateToken = str ''S1''\<rparr>,
         [stateKey (str ''S1'') \<mapsto> (str ''{\"clientId\":\"abc123\"}'', 600)])"
    by (simp add: createOAuthState_def sample_platform_def str_def)
  have bind: "bind_setCookie (bindStateToSession sample_platform (str ''S1''))
      = str ''__Host-CONSENTED_STATE=04fa94dd11b4276cf32c50eeaa27e0ab59100e72d48abc6b9b8d5dd2c8198608; HttpOnly; Secure; Path=/; SameSite=Lax; Max-Age=600''"
    by (simp add: bindStateToSession_def sample_eval upt_32)
  have redirect: "redirectToNotion sample_platform ?req (str ''S1'')
        (fromEntries sample_platform
           [(str ''set-cookie'', str ''__Host-APPROVED_CLIENTS=de550feef1ed02e392d100936cf68ae89084460b9eb3acde31025330bf1e3705.WyJhYmMxMjMiXQ==; HttpOnly; Secure; Path=/; SameSite=Lax; Max-Age=2592000''),
            (str ''set-cookie'', str ''__Host-CONSENTED_STATE=04fa94dd11b4276cf32c50eeaa27e0ab59100e72d48abc6b9b8d5dd2c8198608; HttpOnly; Secure; Path=/; SameSite=Lax; Max-Age=600'')])
      = \<lparr>status = 302,
        headers = [(str ''set-cookie'', str ''__Host-CONSENTED_STATE=04fa94dd11b4276cf32c50eeaa27e0ab59100e72d48abc6b9b8d5dd2c8198608; HttpOnly; Secure; Path=/; SameSite=Lax; Max-Age=600''),
                   (str ''Location'', str ''https://api.notion.com/v1/oauth/authorize?state=S1'')],
        body = NoBody\<rparr>"
    by (simp add: redirectToNotion_def sample_platform_def str_def)
  show ?thesis
    unfolding post_authorize_def
    by (simp add: csrf st ne ne2 sample_state_decoded parse props approve created bind redirect
        del: fun_upd_apply)
qed

section \<open>Properties of signing and verification\<close>

text \<open>
  C5, as the code has it. For a secret that \<open>importKey\<close> accepts: \<open>signData\<close> returns
  the lower-case hexadecimal text of the MAC of the data, a function of data and
  secret; \<open>verifySignature\<close> accepts that text for the same data; it rejects the
  hexadecimal text of any other byte sequence, any text whose decoded bytes are not
  the MAC, and the signature of \<open>d\<close> presented with data whose MAC differs. It does
  not compare texts: the signature followed by a line feed is accepted too.
\<close>

theorem signData_verifySignature:
  assumes "\<not> rejects_key P k"
  shows "signData P d k = Inr (toHex (bufferBytes (hmac_sha256 P k d)))
     \<and> (\<forall>s. signData P d k = Inr s \<longrightarrow> verifySignature P s d k = Inr True)
     \<and> (\<forall>bs. bs \<noteq> bufferBytes (hmac_sha256 P k d) \<longrightarrow>
            verifySignature P (toHex bs) d k = Inr False)
     \<and> (\<forall>s. map (\<lambda>byte. toUint8 (parseInt16 byte)) (matchPairs s)
              \<noteq> bufferBytes (hmac_sha256 P k d) \<longrightarrow>
            verifySignature P s d k = Inr False)
     \<and> (\<forall>s d'. signData P d k = Inr s \<and> hmac_sha256 P k d' \<noteq> hmac_sha256 P k d \<longrightarrow>
            verifySignature P s d' k = Inr False)
     \<and> (\<forall>s. signData P d k = Inr s \<longrightarrow> verifySignature P (s @ [10]) d k = Inr True)"
proof (intro conjI allI impI)
  show s: "signData P d k = Inr (toHex (bufferBytes (hmac_sha256 P k d)))"
    using assms by (simp add: signData_def importKey_def)
  show "verifySignature P s d k = Inr True" if "signData P d k = Inr s" for s
  proof -
    from that s have e: "s = toHex (bufferBytes (hmac_sha256 P k d))" by simp
    show ?thesis unfolding e by (simp add: verifySignature_toHex [OF assms])
  qed
  show "verifySignature P (toHex bs) d k = Inr False"
    if "bs \<noteq> bufferBytes (hmac_sha256 P k d)" for bs
    using that by (simp add: verifySignature_toHex [OF assms])
  show "verifySignature P s d k = Inr False"
    if "map (\<lambda>byte. toUint8 (parseInt16 byte)) (matchPairs s) \<noteq> bufferBytes (hmac_sha256 P k d)"
    for s
    using that by (simp add: verifySignature_eq [OF assms])
  show "verifySignature P s d' k = Inr False"
    if "signData P d k = Inr s \<and> hmac_sha256 P k d' \<noteq> hmac_sha256 P k d" for s d'
  proof -
    from that s have e: "s = toHex (bufferBytes (hmac_sha256 P k d))" by simp
    from that have "bufferBytes (hmac_sha256 P k d) \<noteq> bufferBytes (hmac_sha256 P k d')"
      using bufferBytes_inj by fastforce
    then show ?thesis unfolding e by (simp add: verifySignature_toHex [OF assms])
  qed
  show "verifySignature P (s @ [10]) d k = Inr True" if "signData P d k = Inr s" for s
  proof -
    from that s have e: "s = toHex (bufferBytes (hmac_sha256 P k d))" by simp
    have "matchPairs (toHex (bufferBytes (hmac_sha256 P k d))) \<noteq> []"
      using length_bufferBytes [of "hmac_sha256 P k d"] by (auto simp: matchPairs_toHex)
    then show ?thesis
      unfolding e verifySignature_eq [OF assms] matchPairs_append_newline decode_toHex by simp
  qed
qed

theorem signData_verifySignature_witness:
  "signData sample_platform (str ''[\"abc123\"]'') (str ''secret'')
     = Inr (str ''de550feef1ed02e392d100936cf68ae89084460b9eb3acde31025330bf1e3705'')
   \<and> verifySignature sample_platform
       (str ''de550feef1ed02e392d100936cf68ae89084460b9eb3acde31025330bf1e3705'')
       (str ''[\"abc123\"]'') (str ''secret'') = Inr True
   \<and> verifySignature sample_platform
       (str ''de550feef1ed02e392d100936cf68ae89084460b9eb3acde31025330bf1e3704'')
       (str ''[\"abc123\"]'') (str ''secret'') = Inr False
   \<and> verifySignature sample_platform
       (str ''de550feef1ed02e392d100936cf68ae89084460b9eb3acde31025330bf1e3705'')
       (str ''[\"xyz\"]'') (str ''secret'') = Inr False"
proof -
  note t = signData_verifySignature [OF sample_accepts_key, of "str ''[\"abc123\"]''"]
  have 1: "signData sample_platform (str ''[\"abc123\"]'') (str ''secret'')
     = Inr (str ''de550feef1ed02e392d100936cf68ae89084460b9eb3acde31025330bf1e3705'')"
    using t [THEN conjunct1] by (simp only: sample_signature)
  note 2 = t [THEN conjunct2, THEN conjunct1, rule_format, OF 1]
  have "map (\<lambda>byte. toUint8 (parseInt16 byte))
          (matchPairs (str ''de550feef1ed02e392d100936cf68ae89084460b9eb3acde31025330bf1e3704''))
        \<noteq> bufferBytes (hmac_sha256 sample_platform (str ''secret'') (str ''[\"abc123\"]''))"
    unfolding sample_mac by (simp add: decode_eval)
  note 3 = t [THEN conjunct2, THEN conjunct2, THEN conjunct2, THEN conjunct1, rule_format, OF this]
  have "hmac_sha256 sample_platform (str ''secret'') (str ''[\"xyz\"]'')
      \<noteq> hmac_sha256 sample_platform (str ''secret'') (str ''[\"abc123\"]'')"
    by (simp add: sample_platform_def sample_word_def str_def)
  note 4 = t [THEN conjunct2, THEN conjunct2, THEN conjunct2, THEN conjunct2, THEN conjunct1,
      rule_format, OF conjI [OF 1 this]]
  from 1 2 3 4 show ?thesis by (intro conjI)
qed

text \<open>
  C5, as the specification words it, fails: changing one code unit of a signature (its
  first digit \<open>d\<close> to \<open>D\<close>) gives a different text that still verifies.
\<close>

theorem verifySignature_accepts_changed_signature:
  "signData sample_platform (str ''[\"abc123\"]'') (str ''secret'')
     = Inr (str ''de550feef1ed02e392d100936cf68ae89084460b9eb3acde31025330bf1e3705'')
   \<and> verifySignature sample_platform
       (str ''De550feef1ed02e392d100936cf68ae89084460b9eb3acde31025330bf1e3705'')
       (str ''[\"abc123\"]'') (str ''secret'') = Inr True
   \<and> str ''De550feef1ed02e392d100936cf68ae89084460b9eb3acde31025330bf1e3705''
       \<noteq> str ''de550feef1ed02e392d100936cf68ae89084460b9eb3acde31025330bf1e3705''"
proof (intro conjI)
  show "signData sample_platform (str ''[\"abc123\"]'') (str ''secret'')
     = Inr (str ''de550feef1ed02e392d100936cf68ae89084460b9eb3acde31025330bf1e3705'')"
    using sample_accepts_key by (simp add: signData_def importKey_def sample_signature)
  show "verifySignature sample_platform
       (str ''De550feef1ed02e392d100936cf68ae89084460b9eb3acde31025330bf1e3705'')
       (str ''[\"abc123\"]'') (str ''secret'') = Inr True"
    unfolding verifySignature_eq [OF sample_accepts_key] sample_mac
    by (simp add: decode_eval)
  show "str ''De550feef1ed02e392d100936cf68ae89084460b9eb3acde31025330bf1e3705''
       \<noteq> str ''de550feef1ed02e392d100936cf68ae89084460b9eb3acde31025330bf1e3705''"
    by (simp add: str_def)
qed

text \<open>
  C9, as the code has it. For a secret that \<open>importKey\<close> accepts, \<open>verifySignature\<close>
  returns a boolean for every \<open>signatureHex\<close> and lets no exception escape. It is
  false for the empty text, for every text that does not split into exactly 32 chunks,
  hence for every text without line terminators whose length is neither 63 nor 64; it
  is true exactly when the chunks, read by \<open>parseInt\<close>, are the 32 bytes of the MAC.
  Text that is not well-formed hexadecimal is not refused as such: the signature
  followed by a line feed verifies.
\<close>

theorem verifySignature_fails_closed:
  assumes "\<not> rejects_key P secret"
  shows "(\<exists>b. verifySignature P signatureHex data secret = Inr b)
     \<and> verifySignature P [] data secret = Inr False
     \<and> (length (matchPairs signatureHex) \<noteq> 32 \<longrightarrow>
           verifySignature P signatureHex data secret = Inr False)
     \<and> ((\<forall>c \<in> set signatureHex. \<not> isLineTerminator c)
          \<and> length signatureHex \<noteq> 63 \<and> length signatureHex \<noteq> 64 \<longrightarrow>
           verifySignature P signatureHex data secret = Inr False)
     \<and> (verifySignature P signatureHex data secret = Inr True \<longleftrightarrow>
           matchPairs signatureHex \<noteq> []
           \<and> map (\<lambda>byte. toUint8 (parseInt16 byte)) (matchPairs signatureHex)
               = bufferBytes (hmac_sha256 P secret data))
     \<and> verifySignature P (toHex (bufferBytes (hmac_sha256 P secret data)) @ [10]) data secret
         = Inr True"
proof (intro conjI impI)
  show "\<exists>b. verifySignature P signatureHex data secret = Inr b"
    by (simp add: verifySignature_eq [OF assms])
  show "verifySignature P [] data secret = Inr False"
    by (simp add: verifySignature_eq [OF assms])
  show count: "verifySignature P signatureHex data secret = Inr False"
    if "length (matchPairs signatureHex) \<noteq> 32"
  proof -
    from that have "map (\<lambda>byte. toUint8 (parseInt16 byte)) (matchPairs signatureHex)
        \<noteq> bufferBytes (hmac_sha256 P secret data)"
      using length_bufferBytes [of "hmac_sha256 P secret data"] by (metis length_map)
    then show ?thesis by (simp add: verifySignature_eq [OF assms])
  qed
  show "verifySignature P signatureHex data secret = Inr False"
    if a: "(\<forall>c \<in> set signatureHex. \<not> isLineTerminator c)
          \<and> length signatureHex \<noteq> 63 \<and> length signatureHex \<noteq> 64"
  proof -
    from a have "length (matchPairs signatureHex) = (length signatureHex + 1) div 2"
      by (simp add: matchPairs_length)
    with a have "length (matchPairs signatureHex) \<noteq> 32" by arith
    then show ?thesis by (rule count)
  qed
  show "verifySignature P signatureHex data secret = Inr True \<longleftrightarrow>
           matchPairs signatureHex \<noteq> []
           \<and> map (\<lambda>byte. toUint8 (parseInt16 byte)) (matchPairs signatureHex)
               = bufferBytes (hmac_sha256 P secret data)"
    by (simp add: verifySignature_eq [OF assms])
  have "matchPairs (toHex (bufferBytes (hmac_sha256 P secret data))) \<noteq> []"
    using length_bufferBytes [of "hmac_sha256 P secret data"] by (auto simp: matchPairs_toHex)
  then show "verifySignature P (toHex (bufferBytes (hmac_sha256 P secret data)) @ [10]) data secret
         = Inr True"
    unfolding verifySignature_eq [OF assms] matchPairs_append_newline decode_toHex by simp
qed

theorem verifySignature_fails_closed_witness:
  "verifySignature sample_platform [] (str ''[\"abc123\"]'') (str ''secret'') = Inr False
   \<and> verifySignature sample_platform (str ''de550feef1ed02e39'') (str ''[\"abc123\"]'') (str ''secret'')
       = Inr False
   \<and> verifySignature sample_platform (str ''zz'') (str ''[\"abc123\"]'') (str ''secret'') = Inr False"
proof -
  note t = verifySignature_fails_closed [OF sample_accepts_key, of _ "str ''[\"abc123\"]''"]
  note 1 = t [of "[]", THEN conjunct2, THEN conjunct1]
  have "(\<forall>c \<in> set (str ''de550feef1ed02e39''). \<not> isLineTerminator c)
      \<and> length (str ''de550feef1ed02e39'') \<noteq> 63 \<and> length (str ''de550feef1ed02e39'') \<noteq> 64"
    by (simp add: str_def isLineTerminator_def)
  note 2 = t [THEN conjunct2, THEN conjunct2, THEN conjunct2, THEN conjunct1, rule_format, OF this]
  have "length (matchPairs (str ''zz'')) \<noteq> 32"
    by (simp add: str_def isLineTerminator_def)
  note 3 = t [THEN conjunct2, THEN conjunct2, THEN conjunct1, rule_format, OF this]
  from 1 2 3 show ?thesis by (intro conjI)
qed

text \<open>
  C9, as the specification words it, fails: a text of odd length 65 that contains a line
  feed, and a text of odd length 63, both malformed, verify.
\<close>

theorem verifySignature_accepts_malformed_hex:
  "verifySignature sample_platform
       (str ''de550feef1ed02e392d100936cf68ae89084460b9eb3acde31025330bf1e3705'' @ [10])
       (str ''[\"abc123\"]'') (str ''secret'') = Inr True
   \<and> length (str ''de550feef1ed02e392d100936cf68ae89084460b9eb3acde31025330bf1e3705'' @ [10]) = 65
   \<and> hexVal 10 = None
   \<and> verifySignature sample_platform
       (str ''de550feef1ed02e392d100936cf68ae89084460b9eb3acde31025330bf1e375'')
       (str ''[\"abc123\"]'') (str ''secret'') = Inr True
   \<and> length (str ''de550feef1ed02e392d100936cf68ae89084460b9eb3acde31025330bf1e375'') = 63"
proof (intro conjI)
  show "verifySignature sample_platform
       (str ''de550feef1ed02e392d100936cf68ae89084460b9eb3acde31025330bf1e3705'' @ [10])
       (str ''[\"abc123\"]'') (str ''secret'') = Inr True"
    unfolding verifySignature_eq [OF sample_accepts_key] sample_mac
    by (simp add: decode_eval)
  show "verifySignature sample_platform
       (str ''de550feef1ed02e392d100936cf68ae89084460b9eb3acde31025330bf1e375'')
       (str ''[\"abc123\"]'') (str ''secret'') = Inr True"
    unfolding verifySignature_eq [OF sample_accepts_key] sample_mac
    by (simp add: decode_eval)
qed (simp_all add: str_def hexVal_def)

section \<open>Properties of the approved-clients cookie\<close>

text \<open>
  C2. \<open>isClientApproved\<close> does not fail closed on a payload that is not base64:
  \<open>atob\<close> is called outside every \<open>try\<close>, and its \<open>InvalidCharacterError\<close> leaves
  \<open>getApprovedClientsFromCookie\<close> and \<open>isClientApproved\<close>. This holds on every
  platform, for every client id and secret. A missing cookie, and a cookie value
  that is not of the form signature.payload, give false.
\<close>

theorem isClientApproved_throws_on_bad_base64:
  "isClientApproved P
      \<lparr>cookie_header = Some (str ''__Host-APPROVED_CLIENTS=ab.!!!''), query_state = None,
       req_url = url, body_form = None\<rparr> clientId cookieSecret
    = Inl InvalidCharacterError
   \<and> isClientApproved P
      \<lparr>cookie_header = None, query_state = None, req_url = url, body_form = None\<rparr>
      clientId cookieSecret
    = Inr False
   \<and> isClientApproved P
      \<lparr>cookie_header = Some (str ''__Host-APPROVED_CLIENTS=abc''), query_state = None,
       req_url = url, body_form = None\<rparr> clientId cookieSecret
    = Inr False"
  by (simp add: isClientApproved_def getApprovedClientsFromCookie_def str_def trim_def
      isWhiteSpace_def startsWith_def approvedCookiePrefix_def atob_def stripPadding_def
      isAsciiWhitespace_def b64val_def)

text \<open>
  C8. A cookie whose payload is not base64 is not treated as the empty approved set:
  \<open>addApprovedClient\<close> throws on it, by the same \<open>atob\<close> call. Whenever the first
  approval returns a cookie, and the platform's \<open>JSON.parse\<close> reads back the array
  that its \<open>JSON.stringify\<close> wrote, the approval is idempotent with set semantics:
  approving the same client id again, with that cookie sent back, returns the same
  cookie; its payload decodes, with a verified signature, to the approved list, which
  holds the client id exactly once; and a missing or rejected input cookie gives the
  list of that client id alone.
\<close>

theorem addApprovedClient_set_semantics:
  "addApprovedClient P
      \<lparr>cookie_header = Some (str ''__Host-APPROVED_CLIENTS=ab.!!!''), query_state = None,
       req_url = url, body_form = None\<rparr> (JStr clientId) secret
     = Inl InvalidCharacterError
   \<and> (\<forall>request cookie1 found.
         addApprovedClient P request (JStr clientId) secret = Inr cookie1
         \<and> getApprovedClientsFromCookie P request secret = Inr found
         \<and> JSON_parse P (JSON_stringify P (JArr (map JStr
                  (setToArray ((case found of None \<Rightarrow> [] | Some xs \<Rightarrow> xs) @ [clientId])))))
               = Some (JArr (map JStr
                  (setToArray ((case found of None \<Rightarrow> [] | Some xs \<Rightarrow> xs) @ [clientId]))))
         \<longrightarrow>
           addApprovedClient P (request\<lparr>cookie_header := Some (cookiePair cookie1)\<rparr>)
               (JStr clientId) secret = Inr cookie1
         \<and> getApprovedClientsFromCookie P (request\<lparr>cookie_header := Some (cookiePair cookie1)\<rparr>)
               secret
             = Inr (Some (setToArray ((case found of None \<Rightarrow> [] | Some xs \<Rightarrow> xs) @ [clientId])))
         \<and> count_list (setToArray ((case found of None \<Rightarrow> [] | Some xs \<Rightarrow> xs) @ [clientId]))
               clientId = 1
         \<and> (found = None \<longrightarrow>
              setToArray ((case found of None \<Rightarrow> [] | Some xs \<Rightarrow> xs) @ [clientId]) = [clientId]))"
proof (intro conjI allI impI)
  show "addApprovedClient P
      \<lparr>cookie_header = Some (str ''__Host-APPROVED_CLIENTS=ab.!!!''), query_state = None,
       req_url = url, body_form = None\<rparr> (JStr clientId) secret
     = Inl InvalidCharacterError"
    by (simp add: addApprovedClient_def getApprovedClientsFromCookie_def str_def trim_def
        isWhiteSpace_def startsWith_def approvedCookiePrefix_def atob_def stripPadding_def
        isAsciiWhitespace_def b64val_def)
next
  fix request cookie1 found
  assume a: "addApprovedClient P request (JStr clientId) secret = Inr cookie1
         \<and> getApprovedClientsFromCookie P request secret = Inr found
         \<and> JSON_parse P (JSON_stringify P (JArr (map JStr
                  (setToArray ((case found of None \<Rightarrow> [] | Some xs \<Rightarrow> xs) @ [clientId])))))
               = Some (JArr (map JStr
                  (setToArray ((case found of None \<Rightarrow> [] | Some xs \<Rightarrow> xs) @ [clientId]))))"
  note t = addApprovedClient_twice [OF a [THEN conjunct1] a [THEN conjunct2, THEN conjunct1]
      a [THEN conjunct2, THEN conjunct2]]
  show "addApprovedClient P (request\<lparr>cookie_header := Some (cookiePair cookie1)\<rparr>)
               (JStr clientId) secret = Inr cookie1"
    by (rule t [THEN conjunct1])
  show "getApprovedClientsFromCookie P (request\<lparr>cookie_header := Some (cookiePair cookie1)\<rparr>)
               secret
             = Inr (Some (setToArray ((case found of None \<Rightarrow> [] | Some xs \<Rightarrow> xs) @ [clientId])))"
    by (rule t [THEN conjunct2, THEN conjunct1])
  show "count_list (setToArray ((case found of None \<Rightarrow> [] | Some xs \<Rightarrow> xs) @ [clientId]))
               clientId = 1"
    by (rule t [THEN conjunct2, THEN conjunct2, THEN conjunct1])
  show "setToArray ((case found of None \<Rightarrow> [] | Some xs \<Rightarrow> xs) @ [clientId]) = [clientId]"
    if "found = None"
    using t [THEN conjunct2, THEN conjunct2, THEN conjunct2] that by blast
qed

theorem addApprovedClient_set_semantics_witness:
  "addApprovedClient sample_platform
      \<lparr>cookie_header = Some (str ''__Host-APPROVED_CLIENTS=de550feef1ed02e392d100936cf68ae89084460b9eb3acde31025330bf1e3705.WyJhYmMxMjMiXQ==''),
       query_state = None, req_url = str ''https://mcp.example/authorize'', body_form = None\<rparr>
      (JStr (str ''abc123'')) (str ''secret'')
    = Inr (str ''__Host-APPROVED_CLIENTS=de550feef1ed02e392d100936cf68ae89084460b9eb3acde31025330bf1e3705.WyJhYmMxMjMiXQ==; HttpOnly; Secure; Path=/; SameSite=Lax; Max-Age=2592000'')
   \<and> getApprovedClientsFromCookie sample_platform
      \<lparr>cookie_header = Some (str ''__Host-APPROVED_CLIENTS=de550feef1ed02e392d100936cf68ae89084460b9eb3acde31025330bf1e3705.WyJhYmMxMjMiXQ==''),
       query_state = None, req_url = str ''https://mcp.example/authorize'', body_form = None\<rparr>
      (str ''secret'')
    = Inr (Some [str ''abc123''])
   \<and> count_list [str ''abc123''] (str ''abc123'') = 1"
proof -
  let ?req = "\<lparr>cookie_header = None, query_state = None,
      req_url = str ''https://mcp.example/authorize'', body_form = None\<rparr>"
  let ?c1 = "str ''__Host-APPROVED_CLIENTS=de550feef1ed02e392d100936cf68ae89084460b9eb3acde31025330bf1e3705.WyJhYmMxMjMiXQ==; HttpOnly; Secure; Path=/; SameSite=Lax; Max-Age=2592000''"
  have g: "getApprovedClientsFromCookie sample_platform ?req (str ''secret'') = Inr None"
    by (simp add: getApprovedClientsFromCookie_def)
  have u: "setToArray ((case None of None \<Rightarrow> [] | Some xs \<Rightarrow> xs) @ [str ''abc123''])
      = [str ''abc123'']"
    by (simp add: setToArray_def)
  have rt: "JSON_parse sample_platform (JSON_stringify sample_platform (JArr (map JStr
                  (setToArray ((case None of None \<Rightarrow> [] | Some xs \<Rightarrow> xs) @ [str ''abc123''])))))
               = Some (JArr (map JStr
                  (setToArray ((case None of None \<Rightarrow> [] | Some xs \<Rightarrow> xs) @ [str ''abc123'']))))"
    unfolding u by (simp add: sample_platform_def sample_parse_def sample_values_def str_def)
  have cp: "cookiePair ?c1
      = str ''__Host-APPROVED_CLIENTS=de550feef1ed02e392d100936cf68ae89084460b9eb3acde31025330bf1e3705.WyJhYmMxMjMiXQ==''"
    by (simp add: cookiePair_def str_def)
  note t = addApprovedClient_set_semantics [where P = sample_platform, THEN conjunct2, rule_format,
      OF conjI [OF sample_first_approval conjI [OF g rt]], unfolded u cp]
  from t show ?thesis by simp
qed

end
